theory Spec2Isabelle
  imports Complex_Main "HOL-Library.Monad_Syntax"
begin

section \<open>Floating-point values\<close>

text \<open>
  The Python and NumPy floats of the sources are modelled as the reals extended by the two
  infinities and by NaN.  Rounding, overflow and the sign of zero are not modelled: a finite
  result is the exact real result, and zero is taken as \<open>+0\<close>.  What is modelled is
  what the control flow of the sources depends on: every comparison with NaN is false,
  NaN propagates through arithmetic, and \<open>np.isnan\<close> / \<open>np.isfinite\<close> tell the
  values apart.
\<close>

datatype fl = NaN | NInf | Fin real | PInf

definition isnan :: "fl \<Rightarrow> bool" where
  "isnan x = (x = NaN)"

fun isfinite :: "fl \<Rightarrow> bool" where
  "isfinite (Fin x) = True"
| "isfinite _ = False"

text \<open>\<open>a < b\<close> on floats.\<close>

fun flt :: "fl \<Rightarrow> fl \<Rightarrow> bool" where
  "flt NaN b = False"
| "flt a NaN = False"
| "flt a NInf = False"
| "flt NInf b = True"
| "flt PInf b = False"
| "flt (Fin x) PInf = True"
| "flt (Fin x) (Fin y) = (x < y)"

text \<open>\<open>a == b\<close> on floats: NaN equals nothing, itself included.\<close>

definition feq :: "fl \<Rightarrow> fl \<Rightarrow> bool" where
  "feq a b = (a \<noteq> NaN \<and> a = b)"

definition fgt :: "fl \<Rightarrow> fl \<Rightarrow> bool" where
  "fgt a b = flt b a"

definition fle :: "fl \<Rightarrow> fl \<Rightarrow> bool" where
  "fle a b = (flt a b \<or> feq a b)"

definition fge :: "fl \<Rightarrow> fl \<Rightarrow> bool" where
  "fge a b = fle b a"

fun fneg :: "fl \<Rightarrow> fl" where
  "fneg NaN = NaN"
| "fneg NInf = PInf"
| "fneg PInf = NInf"
| "fneg (Fin x) = Fin (- x)"

fun fabs :: "fl \<Rightarrow> fl" where
  "fabs NaN = NaN"
| "fabs NInf = PInf"
| "fabs PInf = PInf"
| "fabs (Fin x) = Fin \<bar>x\<bar>"

fun fadd :: "fl \<Rightarrow> fl \<Rightarrow> fl" where
  "fadd NaN b = NaN"
| "fadd a NaN = NaN"
| "fadd (Fin x) (Fin y) = Fin (x + y)"
| "fadd PInf NInf = NaN"
| "fadd NInf PInf = NaN"
| "fadd PInf b = PInf"
| "fadd NInf b = NInf"
| "fadd (Fin x) b = b"

definition fsub :: "fl \<Rightarrow> fl \<Rightarrow> fl" where
  "fsub a b = fadd a (fneg b)"

text \<open>The infinity with the sign of a non-zero real; \<open>inf * 0\<close> is NaN.\<close>

definition signed_inf :: "real \<Rightarrow> fl" where
  "signed_inf s = (if s = 0 then NaN else if 0 < s then PInf else NInf)"

fun fmul :: "fl \<Rightarrow> fl \<Rightarrow> fl" where
  "fmul NaN b = NaN"
| "fmul a NaN = NaN"
| "fmul (Fin x) (Fin y) = Fin (x * y)"
| "fmul (Fin x) PInf = signed_inf x"
| "fmul (Fin x) NInf = signed_inf (- x)"
| "fmul PInf (Fin y) = signed_inf y"
| "fmul NInf (Fin y) = signed_inf (- y)"
| "fmul PInf PInf = PInf"
| "fmul NInf NInf = PInf"
| "fmul PInf NInf = NInf"
| "fmul NInf PInf = NInf"

text \<open>
  NumPy division: a finite non-zero value over zero is an infinity, \<open>0 / 0\<close> and
  \<open>inf / inf\<close> are NaN, a finite value over an infinity is zero.
\<close>

fun fdiv :: "fl \<Rightarrow> fl \<Rightarrow> fl" where
  "fdiv NaN b = NaN"
| "fdiv a NaN = NaN"
| "fdiv (Fin x) (Fin y) = (if y = 0 then signed_inf x else Fin (x / y))"
| "fdiv (Fin x) b = Fin 0"
| "fdiv PInf (Fin y) = (if 0 \<le> y then PInf else NInf)"
| "fdiv NInf (Fin y) = (if 0 \<le> y then NInf else PInf)"
| "fdiv a b = NaN"

text \<open>Python's built-in \<open>max(a, b)\<close>: the first argument unless the second is greater.\<close>

definition fmax :: "fl \<Rightarrow> fl \<Rightarrow> fl" where
  "fmax a b = (if fgt b a then b else a)"

definition fmin :: "fl \<Rightarrow> fl \<Rightarrow> fl" where
  "fmin a b = (if flt b a then b else a)"


section \<open>The simple C-Q behaviour classifier\<close>

text \<open>
  \<open>classify_cq_behavior_simple\<close> of \<open>gcs_classification.py\<close>.  The significance test
  is written twice in the source, once for the flow and once for the concentration:
  \<^verbatim>\<open>abs(diff) > (threshold_factor * delta) if delta > 1e-10 else False\<close>.
\<close>

definition range_delta :: "fl \<times> fl \<Rightarrow> fl" where
  "range_delta r = fsub (snd r) (fst r)"

definition is_changing :: "fl \<Rightarrow> fl \<Rightarrow> fl \<Rightarrow> bool" where
  "is_changing diff delta threshold_factor =
     (if fgt delta (Fin (1 / 10 ^ 10)) then fgt (fabs diff) (fmul threshold_factor delta)
      else False)"

definition classify_cq_behavior_simple ::
  "fl \<Rightarrow> fl \<Rightarrow> fl \<times> fl \<Rightarrow> fl \<times> fl \<Rightarrow> fl \<Rightarrow> string" where
  "classify_cq_behavior_simple flow_diff conc_diff flow_range conc_range threshold_factor =
     (let flow_delta = range_delta flow_range;
          conc_delta = range_delta conc_range;
          is_flow_changing = is_changing flow_diff flow_delta threshold_factor;
          is_conc_changing = is_changing conc_diff conc_delta threshold_factor
      in if \<not> is_flow_changing \<and> \<not> is_conc_changing then ''static''
         else if is_flow_changing \<and> \<not> is_conc_changing then ''quasi-chemostatic''
         else if \<not> is_flow_changing \<and> is_conc_changing then ''source variation''
         else if fgt flow_diff (Fin 0) \<and> fgt conc_diff (Fin 0) then ''connectivity''
         else if flt flow_diff (Fin 0) \<and> flt conc_diff (Fin 0) then ''recovery''
         else if fgt flow_diff (Fin 0) \<and> flt conc_diff (Fin 0) then ''dispersion''
         else ''accumulation'')"

text \<open>
  The significance test in the words of the specification: a change is significant iff its
  absolute value exceeds \<open>threshold_factor\<close> times the span of the range.
\<close>

definition significant_spec :: "fl \<Rightarrow> fl \<times> fl \<Rightarrow> fl \<Rightarrow> bool" where
  "significant_spec diff r threshold_factor =
     fgt (fabs diff) (fmul threshold_factor (range_delta r))"


section \<open>The hierarchical phase classifier\<close>

text \<open>
  \<open>classify_segment_phase\<close> of \<open>gcs_classification.py\<close>.  A row is a pandas Series
  read with \<open>row.get(key, default)\<close>: a key that is absent yields the default.  The
  numeric and the string columns are kept in two maps.  The percentile thresholds are a
  dict read with \<open>percentiles[key]\<close>, which raises \<open>KeyError\<close> on an absent key; the
  classifier raises nothing else, so its result is an option and \<open>None\<close> is the
  \<open>KeyError\<close>.  The confidence is built from decimal constants only and is a real.
\<close>

record row =
  num :: "string \<rightharpoonup> fl"
  str :: "string \<rightharpoonup> string"

type_synonym percentiles = "string \<rightharpoonup> fl"

definition get_num :: "row \<Rightarrow> string \<Rightarrow> fl \<Rightarrow> fl" where
  "get_num r k d = (case num r k of None \<Rightarrow> d | Some x \<Rightarrow> x)"

definition get_str :: "row \<Rightarrow> string \<Rightarrow> string \<Rightarrow> string" where
  "get_str r k d = (case str r k of None \<Rightarrow> d | Some x \<Rightarrow> x)"

text \<open>The local variables that lines 66 to 101 extract from the row.\<close>

record vars =
  hi :: fl
  q_pos :: string
  c_pos :: string
  flow_diff :: fl
  conc_diff :: fl
  cvc_cvq :: fl
  cq_slope :: fl
  flow_phase :: string
  days_since_peak :: fl
  q_level :: string
  hi_transition :: string
  prev_c_pos :: string
  prev_conc_diff :: fl
  prev2_conc_diff :: fl
  c_trajectory :: string
  wai :: fl

definition extract_vars :: "row \<Rightarrow> vars" where
  "extract_vars r =
     (let hi_zuecco = get_num r ''window_HI_zuecco'' (Fin 0);
          hi_lloyd = get_num r ''window_HI_lloyd'' (Fin 0);
          hi_harp = get_num r ''window_HI_harp'' (Fin 0);
          q_position = get_str r ''Q_position'' ''medium''
      in \<lparr> hi = (if \<not> isnan hi_zuecco then hi_zuecco
                  else if \<not> isnan hi_lloyd then hi_lloyd
                  else if \<not> isnan hi_harp then hi_harp
                  else Fin 0),
           q_pos = q_position,
           c_pos = get_str r ''C_position'' ''medium'',
           flow_diff = get_num r ''flow_diff'' (Fin 0),
           conc_diff = get_num r ''conc_diff'' (Fin 0),
           cvc_cvq = get_num r ''CVc_CVq'' NaN,
           cq_slope = get_num r ''cq_slope_loglog'' NaN,
           flow_phase = get_str r ''highres_flow_phase'' ''unknown'',
           days_since_peak = get_num r ''highres_days_since_peak'' NaN,
           q_level = get_str r ''highres_q_level'' q_position,
           hi_transition = get_str r ''HI_transition'' ''stable'',
           prev_c_pos = get_str r ''prev_C_position'' ''none'',
           prev_conc_diff = get_num r ''prev_conc_diff'' (Fin 0),
           prev2_conc_diff = get_num r ''prev2_conc_diff'' (Fin 0),
           c_trajectory = get_str r ''C_trajectory'' ''stable'',
           wai = get_num r ''WAI'' NaN \<rparr>)"

text \<open>The derived conditions that do not read the thresholds.\<close>

definition q_at_peak :: "vars \<Rightarrow> bool" where
  "q_at_peak v = (flow_phase v \<in> set [''at_peak'', ''rising'', ''early_decline''])"

definition q_high :: "vars \<Rightarrow> bool" where
  "q_high v = (q_level v \<in> set [''high'', ''medium''] \<or> q_pos v = ''high'')"

definition c_was_high :: "vars \<Rightarrow> bool" where
  "c_was_high v =
     (prev_c_pos v = ''high'' \<or> c_pos v = ''high''
      \<or> c_trajectory v \<in> set [''steep_decline_from_high'', ''steep_decline''])"

definition cq_slope_positive :: "vars \<Rightarrow> bool" where
  "cq_slope_positive v = (\<not> isnan (cq_slope v) \<and> fgt (cq_slope v) (Fin 0.15))"

definition c_high_rising :: "vars \<Rightarrow> bool" where
  "c_high_rising v = (c_pos v = ''high'' \<and> fgt (conc_diff v) (Fin 0))"

definition q_not_peaked :: "vars \<Rightarrow> bool" where
  "q_not_peaked v = (flow_phase v \<notin> set [''at_peak'', ''early_decline''])"

definition cq_slope_negative :: "vars \<Rightarrow> bool" where
  "cq_slope_negative v = (\<not> isnan (cq_slope v) \<and> flt (cq_slope v) (Fin (- 0.15)))"

definition cq_slope_flat :: "vars \<Rightarrow> bool" where
  "cq_slope_flat v = (isnan (cq_slope v) \<or> flt (fabs (cq_slope v)) (Fin 0.1))"

definition post_peak :: "vars \<Rightarrow> bool" where
  "post_peak v =
     (flow_phase v \<in> set [''post_peak'', ''late_decline'']
      \<or> (\<not> isnan (days_since_peak v) \<and> fgt (days_since_peak v) (Fin 5)
          \<and> flt (days_since_peak v) (Fin 30)))"

definition post_peak_phase :: "vars \<Rightarrow> bool" where
  "post_peak_phase v =
     (flow_phase v \<in> set [''post_peak'', ''late_decline'', ''stable'']
      \<or> (\<not> isnan (days_since_peak v) \<and> fgt (days_since_peak v) (Fin 5)))"

definition c_depleted :: "vars \<Rightarrow> bool" where
  "c_depleted v = (c_pos v \<in> set [''low'', ''medium''])"

definition late_cycle :: "vars \<Rightarrow> bool" where
  "late_cycle v = (flow_phase v \<in> set [''low'', ''late_decline''] \<or> q_level v = ''low'')"

text \<open>
  Each \<open>if\<close> statement of the body either returns or falls through with the rule trail
  it has extended so far.
\<close>

datatype outcome = Return "string \<times> real \<times> string list" | Continue "string list"

definition or_else ::
  "outcome option \<Rightarrow> (string list \<Rightarrow> outcome option) \<Rightarrow> outcome option" where
  "or_else m k =
     (case m of None \<Rightarrow> None | Some (Return r) \<Rightarrow> Some (Return r) | Some (Continue rules) \<Rightarrow> k rules)"

text \<open>Priority 1, flushing: lines 110 to 170.\<close>

definition flush_current :: "vars \<Rightarrow> percentiles \<Rightarrow> string list \<Rightarrow> outcome option" where
  "flush_current v percentiles rules = do {
     dC_p08 \<leftarrow> percentiles ''dC_p08'';
     let current_steep = flt (conc_diff v) dC_p08 in
     if current_steep \<and> (q_at_peak v \<or> q_high v) then
       let rules = rules @ [''current_steep_decline'', ''q_high_or_peak''];
           rules = (if cq_slope_positive v then rules @ [''positive_cq_slope_dilution'']
                    else rules);
           confidence = (if cq_slope_positive v then (if c_was_high v then 0.95 else 0.90)
                         else (if c_was_high v then 0.92 else 0.85));
           rules = (if c_was_high v then rules @ [''c_was_high''] else rules);
           wet = (\<not> isnan (wai v) \<and> fgt (wai v) (Fin 1));
           rules = (if wet then rules @ [''high_wai_wet''] else rules);
           confidence = (if wet then min 0.98 (confidence + 0.03) else confidence)
       in Some (Return (''F'', confidence, rules))
     else Some (Continue rules)
   }"

definition flush_aftermath :: "vars \<Rightarrow> percentiles \<Rightarrow> string list \<Rightarrow> outcome option" where
  "flush_aftermath v percentiles rules = do {
     dC_p08 \<leftarrow> percentiles ''dC_p08'';
     let prev_steep = flt (prev_conc_diff v) dC_p08 in
     if prev_steep \<and> q_high v \<and> \<not> isnan (days_since_peak v)
        \<and> flt (days_since_peak v) (Fin 15) then do {
       let rules = rules @ [''prev_steep_decline'', ''q_high'', ''recent_peak''];
       abs_dC_p75 \<leftarrow> percentiles ''abs_dC_p75'';
       if flt (fabs (conc_diff v)) abs_dC_p75 then
         let rules = rules @ [''aftermath_stable''];
             confidence = (if cq_slope_positive v then 0.85 else 0.80);
             rules = (if cq_slope_positive v then rules @ [''positive_cq_slope_confirms'']
                      else rules)
         in Some (Return (''F'', confidence, rules))
       else Some (Continue rules)
     }
     else Some (Continue rules)
   }"

definition flush_extended :: "vars \<Rightarrow> percentiles \<Rightarrow> string list \<Rightarrow> outcome option" where
  "flush_extended v percentiles rules = do {
     dC_p08 \<leftarrow> percentiles ''dC_p08'';
     let prev2_steep = flt (prev2_conc_diff v) dC_p08 in
     if prev2_steep \<and> q_at_peak v then
       let rules = rules @ [''prev2_steep_decline'', ''q_at_peak''];
           confidence = (if cq_slope_positive v then 0.75 else 0.70);
           rules = (if cq_slope_positive v then rules @ [''positive_cq_slope''] else rules)
       in Some (Return (''F'', confidence, rules))
     else Some (Continue rules)
   }"

definition flush_extreme :: "vars \<Rightarrow> percentiles \<Rightarrow> string list \<Rightarrow> outcome option" where
  "flush_extreme v percentiles rules = do {
     dC_p01 \<leftarrow> percentiles ''dC_p01'';
     if flt (conc_diff v) dC_p01 then
       let rules = rules @ [''extreme_decline''] in
       if cq_slope_positive v then
         Some (Return (''F'', 0.92, rules @ [''positive_cq_slope_strong'']))
       else if fgt (flow_diff v) (Fin 0) \<or> q_pos v \<in> set [''high'', ''medium''] then
         Some (Return (''F'', 0.88, rules @ [''q_elevated'']))
       else Some (Continue rules)
     else Some (Continue rules)
   }"

text \<open>Priority 2, loading: lines 177 to 217.\<close>

definition load_high_rising :: "vars \<Rightarrow> percentiles \<Rightarrow> string list \<Rightarrow> outcome option" where
  "load_high_rising v percentiles rules =
     (if c_high_rising v then
        let rules = rules @ [''c_high'', ''c_rising''];
            rules = (if cq_slope_negative v then rules @ [''negative_cq_slope_enrichment'']
                     else rules);
            rules = (if q_not_peaked v then rules @ [''q_not_peaked''] else rules);
            confidence = (if cq_slope_negative v then (if q_not_peaked v then 0.95 else 0.92)
                          else (if q_not_peaked v then 0.90 else 0.80));
            dry = (\<not> isnan (wai v) \<and> flt (wai v) (Fin (- 1)));
            rules = (if dry then rules @ [''low_wai_accumulation''] else rules);
            confidence = (if dry then min 0.98 (confidence + 0.03) else confidence)
        in Some (Return (''L'', confidence, rules))
      else Some (Continue rules))"

definition load_large_increase :: "vars \<Rightarrow> percentiles \<Rightarrow> string list \<Rightarrow> outcome option" where
  "load_large_increase v percentiles rules = do {
     dC_p90 \<leftarrow> percentiles ''dC_p90'';
     if fgt (conc_diff v) dC_p90 then do {
       let rules = rules @ [''large_c_increase''];
       dQ_p75 \<leftarrow> percentiles ''dQ_p75'';
       if fle (flow_diff v) dQ_p75 then
         let rules = rules @ [''q_stable''];
             confidence = (if cq_slope_negative v then 0.90 else 0.85);
             rules = (if cq_slope_negative v then rules @ [''negative_cq_slope_confirms'']
                      else rules)
         in Some (Return (''L'', confidence, rules))
       else Some (Continue rules)
     }
     else Some (Continue rules)
   }"

text \<open>Priority 3, chemostatic: lines 224 to 245.  Both \<open>or\<close> and \<open>and\<close> are lazy.\<close>

definition chemostatic :: "vars \<Rightarrow> percentiles \<Rightarrow> string list \<Rightarrow> outcome option" where
  "chemostatic v percentiles rules = do {
     dC_p25 \<leftarrow> percentiles ''dC_p25'';
     in_post_flush \<leftarrow>
       (if flt (prev_conc_diff v) dC_p25 then Some True
        else do { dC_p08 \<leftarrow> percentiles ''dC_p08''; Some (flt (prev2_conc_diff v) dC_p08) });
     if flt (fabs (hi v)) (Fin 0.12) \<and> hi_transition v = ''stable'' then do {
       let rules = rules @ [''low_hi'', ''stable_hi''];
       let rules = (if cq_slope_flat v then rules @ [''flat_cq_slope_chemostatic''] else rules);
       dynamic \<leftarrow>
         (if c_high_rising v then Some True
          else if q_high v then do {
            abs_dC_p75 \<leftarrow> percentiles ''abs_dC_p75'';
            Some (fgt (fabs (conc_diff v)) abs_dC_p75) }
          else Some False);
       if \<not> dynamic then
         if \<not> (in_post_flush \<and> post_peak v) then
           let rules = rules @ [''not_dynamic''];
               confidence = (if cq_slope_flat v then 0.90 else 0.85)
           in Some (Return (''C'', confidence, rules))
         else Some (Continue rules)
       else Some (Continue rules)
     }
     else Some (Continue rules)
   }"

text \<open>Priority 4, dilution: lines 252 to 274.\<close>

definition dilution :: "vars \<Rightarrow> percentiles \<Rightarrow> string list \<Rightarrow> outcome option" where
  "dilution v percentiles rules = do {
     let q_declining_moderate = flt (flow_diff v) (Fin 0);
     abs_dC_p75 \<leftarrow> percentiles ''abs_dC_p75'';
     let c_stable_or_recovering = flt (fabs (conc_diff v)) abs_dC_p75;
     dC_p25 \<leftarrow> percentiles ''dC_p25'';
     let prev_c_declining = flt (prev_conc_diff v) dC_p25;
     dC_p08 \<leftarrow> percentiles ''dC_p08'';
     let prev2_c_declining = flt (prev2_conc_diff v) dC_p08;
     or_else
       (if post_peak_phase v \<and> q_declining_moderate \<and> c_stable_or_recovering then
          if prev_c_declining \<or> prev2_c_declining then
            let rules = rules @ [''post_peak'', ''q_declining'', ''c_stable'', ''recent_flush'']
            in if c_depleted v then Some (Return (''D'', 0.85, rules @ [''c_depleted'']))
               else Some (Return (''D'', 0.75, rules))
          else Some (Continue rules)
        else Some (Continue rules))
       (\<lambda>rules. do {
          large_q_drop \<leftarrow>
            (if post_peak_phase v then do {
               dQ_p10 \<leftarrow> percentiles ''dQ_p10'';
               Some (flt (flow_diff v) dQ_p10 \<and> flt (fabs (conc_diff v)) abs_dC_p75) }
             else Some False);
          if large_q_drop then
            let rules = rules @ [''post_peak'', ''large_q_drop'', ''c_not_changing'']
            in if prev_c_declining \<or> prev2_c_declining then
                 Some (Return (''D'', 0.80, rules @ [''recent_flush'']))
               else Some (Continue rules)
          else Some (Continue rules)
        })
   }"

text \<open>Priority 5, recession: lines 281 to 295.\<close>

definition recession :: "vars \<Rightarrow> percentiles \<Rightarrow> string list \<Rightarrow> outcome option" where
  "recession v percentiles rules = do {
     dQ_p25 \<leftarrow> percentiles ''dQ_p25'';
     both_declining \<leftarrow>
       (if flt (flow_diff v) dQ_p25 then do {
          dC_p25 \<leftarrow> percentiles ''dC_p25'';
          Some (flt (conc_diff v) dC_p25) }
        else Some False);
     or_else
       (if \<not> isnan (cvc_cvq v) \<and> flt (cvc_cvq v) (Fin 0.8) then
          let rules = rules @ [''low_cvc_cvq''] in
          if flt (flow_diff v) dQ_p25 then
            let rules = rules @ [''q_declining''] in
            if late_cycle v then Some (Return (''R'', 0.85, rules @ [''late_cycle'']))
            else Some (Return (''R'', 0.75, rules))
          else Some (Continue rules)
        else Some (Continue rules))
       (\<lambda>rules.
          if both_declining \<and> late_cycle v then
            Some (Return (''R'', 0.70, rules @ [''both_declining'', ''late_cycle'']))
          else Some (Continue rules))
   }"

text \<open>The fallback, variable: lines 301 to 308.\<close>

definition variable_fallback :: "vars \<Rightarrow> string list \<Rightarrow> string \<times> real \<times> string list" where
  "variable_fallback v rules =
     (let rules = rules @ [''fallback_variable''];
          conf = (if flt (fabs (conc_diff v)) (Fin 30) \<and> flt (fabs (flow_diff v)) (Fin 30)
                  then 0.60 else 0.40)
      in (''V'', conf, rules))"

text \<open>
  The statements run in the order of the source; the first that returns ends the call, a
  \<open>KeyError\<close> ends it too, and the fallback returns whatever trail has been collected.
\<close>

fun run ::
  "(string list \<Rightarrow> outcome option) list \<Rightarrow> (string list \<Rightarrow> string \<times> real \<times> string list)
   \<Rightarrow> string list \<Rightarrow> (string \<times> real \<times> string list) option" where
  "run [] final rules = Some (final rules)"
| "run (s # ss) final rules =
     (case s rules of
        None \<Rightarrow> None
      | Some (Return r) \<Rightarrow> Some r
      | Some (Continue rules') \<Rightarrow> run ss final rules')"

definition classify_segment_phase ::
  "row \<Rightarrow> percentiles \<Rightarrow> (string \<times> real \<times> string list) option" where
  "classify_segment_phase r percentiles =
     (let v = extract_vars r in
      run [flush_current v percentiles, flush_aftermath v percentiles,
           flush_extended v percentiles, flush_extreme v percentiles,
           load_high_rising v percentiles, load_large_increase v percentiles,
           chemostatic v percentiles, dilution v percentiles, recession v percentiles]
          (variable_fallback v) [])"

text \<open>The keys of the threshold dict that the classifier reads.\<close>

definition threshold_keys :: "string set" where
  "threshold_keys =
     {''dC_p01'', ''dC_p08'', ''dC_p25'', ''dC_p90'', ''dQ_p10'', ''dQ_p25'', ''dQ_p75'',
      ''abs_dC_p75''}"


section \<open>The Lawler and Lloyd indices\<close>

text \<open>
  The body of the percentile loop of \<open>calculate_lawlerlloyd_metrics\<close> (\<open>lloyd.py\<close>, lines
  128 to 149), for one sample \<open>(C_rise, C_fall)\<close> of the two limbs.  The samples are NumPy
  floats, so a division by zero yields an infinity or NaN and does not raise.
\<close>

definition lawler_HIL :: "fl \<Rightarrow> fl \<Rightarrow> fl" where
  "lawler_HIL C_rise C_fall =
     (if fgt C_rise C_fall then
        if feq C_fall (Fin 0) then NaN else fsub (fdiv C_rise C_fall) (Fin 1)
      else
        if feq C_rise (Fin 0) then NaN
        else fadd (fdiv (Fin (- 1)) (fdiv C_rise C_fall)) (Fin 1))"

definition lloyd_HInew :: "fl \<Rightarrow> fl \<Rightarrow> fl" where
  "lloyd_HInew C_rise C_fall =
     (let C_mid = fmax C_rise C_fall
      in if feq C_mid (Fin 0) then Fin 0 else fdiv (fsub C_rise C_fall) C_mid)"

record hi_row =
  HIL :: fl
  HInew :: fl
  RLi :: fl
  FLi :: fl

text \<open>The table \<open>HI_data\<close>, one row per sampled percentile.\<close>

definition HI_data :: "(fl \<times> fl) list \<Rightarrow> hi_row list" where
  "HI_data samples =
     map (\<lambda>(C_rise, C_fall).
            \<lparr> HIL = lawler_HIL C_rise C_fall, HInew = lloyd_HInew C_rise C_fall,
              RLi = C_rise, FLi = C_fall \<rparr>) samples"


section \<open>The limbs of the loop\<close>

text \<open>
  HARP, Zuecco and Lawler-Lloyd prepare their input with the same lines.  The model starts
  from the series on the hourly grid, that is after \<open>resample('1h').first().interpolate(...)\<close>,
  with finite values of discharge and concentration in time order.  \<open>MinMaxScaler\<close> scales
  each column by \<open>X * scale_ + min_\<close>, a zero range counting as one; the points from the
  first maximum of the discharge onwards are the falling phase.
\<close>

datatype phase = Rising | Falling

record point =
  QS :: real
  CS :: real
  Qphase :: phase

definition minmax_scale :: "real list \<Rightarrow> real list" where
  "minmax_scale xs =
     (let data_min = fold min xs (hd xs);
          data_max = fold max xs (hd xs);
          data_range = data_max - data_min;
          scale = 1 / (if data_range = 0 then 1 else data_range)
      in map (\<lambda>x. x * scale + (0 - data_min * scale)) xs)"

definition argmax :: "real list \<Rightarrow> nat" where
  "argmax xs = length (takeWhile (\<lambda>x. x < fold max xs (hd xs)) xs)"

definition prepare :: "(real \<times> real) list \<Rightarrow> point list" where
  "prepare s =
     (let qs = minmax_scale (map fst s);
          cs = minmax_scale (map snd s);
          peak = argmax (map fst s)
      in map (\<lambda>i. \<lparr> QS = qs ! i, CS = cs ! i,
                     Qphase = (if i < peak then Rising else Falling) \<rparr>) [0..<length s])"

text \<open>\<open>groupby('QS').mean()['CS']\<close>: the sorted distinct keys, each with the mean of its values.\<close>

definition groupby_mean :: "(real \<times> real) list \<Rightarrow> (real \<times> real) list" where
  "groupby_mean kvs =
     map (\<lambda>k. (k, (let vs = map snd (filter (\<lambda>kv. fst kv = k) kvs)
                    in sum_list vs / real (length vs))))
         (sort (remdups (map fst kvs)))"

definition limb :: "phase \<Rightarrow> point list \<Rightarrow> (real \<times> real) list" where
  "limb ph df = groupby_mean (map (\<lambda>p. (QS p, CS p)) (filter (\<lambda>p. Qphase p = ph) df))"

text \<open>
  \<open>pd.concat([rising, falling], axis=1, sort=True)\<close>: the outer join on the sorted union of
  the two indexes; a limb without a value at a key has NaN there.  A row of the table is
  the key with the cells of column 0 (rising) and of column 1 (falling).
\<close>

type_synonym limbs = "(real \<times> fl \<times> fl) list"

definition cell :: "(real \<times> real) list \<Rightarrow> real \<Rightarrow> fl" where
  "cell a k = (case map_of a k of None \<Rightarrow> NaN | Some y \<Rightarrow> Fin y)"

definition concat_sorted :: "(real \<times> real) list \<Rightarrow> (real \<times> real) list \<Rightarrow> limbs" where
  "concat_sorted a b =
     map (\<lambda>k. (k, cell a k, cell b k)) (sort (remdups (map fst a @ map fst b)))"

text \<open>
  \<open>np.interp(x, xp, fp)\<close> for increasing \<open>xp\<close>, given as the list of the points
  \<open>(xp[j], fp[j])\<close>: the first value left of the points, the last value right of them, the
  value itself at a point, and between two points the line through them, computed as NumPy
  does, with its second attempt when the first one is NaN.
\<close>

definition lerp :: "real \<Rightarrow> real \<times> fl \<Rightarrow> real \<times> fl \<Rightarrow> fl" where
  "lerp x p0 p1 =
     (let slope = fdiv (fsub (snd p1) (snd p0)) (Fin (fst p1 - fst p0));
          res = fadd (fmul slope (Fin (x - fst p0))) (snd p0)
      in if isnan res then
           let res2 = fadd (fmul slope (Fin (x - fst p1))) (snd p1)
           in if isnan res2 \<and> feq (snd p0) (snd p1) then snd p0 else res2
         else res)"

fun np_interp :: "real \<Rightarrow> (real \<times> fl) list \<Rightarrow> fl" where
  "np_interp x [] = NaN"
| "np_interp x [p] = snd p"
| "np_interp x (p0 # p1 # ps) =
     (if x \<le> fst p0 then snd p0
      else if x < fst p1 then lerp x p0 p1
      else np_interp x (p1 # ps))"

text \<open>
  \<open>interpolate(method='linear')\<close> on one column: the index is ignored and the values
  count as equally spaced; pandas fills the NaN cells with \<open>np.interp\<close> over the positions
  of the valid cells and then restores the NaN cells before the first valid one.  A column
  without a valid cell is left as it is.
\<close>

definition interpolate_linear :: "fl list \<Rightarrow> fl list" where
  "interpolate_linear ys =
     (let valid = filter (\<lambda>i. \<not> isnan (ys ! i)) [0..<length ys]
      in if valid = [] then ys
         else map (\<lambda>i. if isnan (ys ! i) \<and> hd valid < i
                       then np_interp (real i) (map (\<lambda>j. (real j, ys ! j)) valid)
                       else ys ! i) [0..<length ys])"

definition col0 :: "limbs \<Rightarrow> fl list" where
  "col0 t = map (\<lambda>r. fst (snd r)) t"

definition col1 :: "limbs \<Rightarrow> fl list" where
  "col1 t = map (\<lambda>r. snd (snd r)) t"

definition interpolate :: "limbs \<Rightarrow> limbs" where
  "interpolate t =
     zip (map fst t) (zip (interpolate_linear (col0 t)) (interpolate_linear (col1 t)))"

definition limbs_of :: "point list \<Rightarrow> limbs" where
  "limbs_of df = interpolate (concat_sorted (limb Rising df) (limb Falling df))"

text \<open>\<open>Series.sum()\<close> skips the NaN entries; the sum of no entry is zero.\<close>

definition sum_skipna :: "fl list \<Rightarrow> fl" where
  "sum_skipna xs = foldl fadd (Fin 0) (filter (\<lambda>x. \<not> isnan x) xs)"


section \<open>The percentile samples of Lawler and Lloyd\<close>

text \<open>
  Lines 115 to 126 of \<open>lloyd.py\<close>: the limbs are sampled at \<open>np.arange(0.1, 1.0, 0.1)\<close>,
  by the row of the table when the percentile is a key of it and by \<open>np.interp\<close> over each
  column otherwise.  An empty frame raises before.
\<close>

definition lloyd_percentiles :: "real list" where
  "lloyd_percentiles = map (\<lambda>k. real k * 0.1) [1..<10]"

definition sample_limbs :: "limbs \<Rightarrow> real \<Rightarrow> fl \<times> fl" where
  "sample_limbs t i =
     (case find (\<lambda>r. fst r = i) t of
        Some r \<Rightarrow> snd r
      | None \<Rightarrow> (np_interp i (zip (map fst t) (col0 t)), np_interp i (zip (map fst t) (col1 t))))"

definition lawlerlloyd_HI_data :: "(real \<times> real) list \<Rightarrow> hi_row list option" where
  "lawlerlloyd_HI_data s =
     (if s = [] then None
      else Some (HI_data (map (sample_limbs (limbs_of (prepare s))) lloyd_percentiles)))"


section \<open>The HARP area\<close>

text \<open>
  \<open>_find_intersection\<close> of \<open>harp.py\<close>.  The methods \<open>shapely\<close> and
  \<open>bentley-ottmann\<close> call libraries; they are modelled by the function from the cleaned
  limbs to the abscissa they return, if any.  The method \<open>simple\<close> is the source's own.
\<close>

datatype isect_method =
  Shapely "limbs \<Rightarrow> real option"
| Bentley_Ottmann "limbs \<Rightarrow> real option"
| Simple

definition dropna :: "limbs \<Rightarrow> limbs" where
  "dropna t = filter (\<lambda>r. \<not> isnan (fst (snd r)) \<and> \<not> isnan (snd (snd r))) t"

fun np_sign :: "fl \<Rightarrow> fl" where
  "np_sign NaN = NaN"
| "np_sign NInf = Fin (- 1)"
| "np_sign PInf = Fin 1"
| "np_sign (Fin x) = Fin (sgn x)"

text \<open>\<open>np.diff\<close>: the differences of consecutive entries.\<close>

definition np_diff :: "fl list \<Rightarrow> fl list" where
  "np_diff xs = map (\<lambda>i. fsub (xs ! Suc i) (xs ! i)) [0..<length xs - 1]"

text \<open>\<open>np.where(a)[0]\<close>: the positions of the entries that are not zero.\<close>

definition np_where :: "fl list \<Rightarrow> nat list" where
  "np_where xs = filter (\<lambda>i. \<not> feq (xs ! i) (Fin 0)) [0..<length xs]"

definition find_intersection :: "limbs \<Rightarrow> isect_method \<Rightarrow> real option" where
  "find_intersection t m =
     (let limbs_clean = dropna t
      in if length limbs_clean < 2 then None
         else case m of
                Shapely isect \<Rightarrow> isect limbs_clean
              | Bentley_Ottmann isect \<Rightarrow> isect limbs_clean
              | Simple \<Rightarrow>
                  (let diff = map2 fsub (col0 limbs_clean) (col1 limbs_clean);
                       sign_changes = np_where (np_diff (map np_sign diff))
                   in if length sign_changes > 0
                      then Some (fst (limbs_clean ! hd sign_changes))
                      else None))"

text \<open>\<open>Index.diff()\<close>: NaN first, then the differences of consecutive keys.\<close>

definition index_diff :: "real list \<Rightarrow> fl list" where
  "index_diff xs =
     (case xs of [] \<Rightarrow> [] | x # rest \<Rightarrow> NaN # map (\<lambda>i. Fin (xs ! Suc i - xs ! i)) [0..<length rest])"

text \<open>\<open>((limbs[0] - limbs[1]) * limbs.index.diff()).sum()\<close>\<close>

definition limb_area :: "limbs \<Rightarrow> fl" where
  "limb_area t = sum_skipna (map2 fmul (map2 fsub (col0 t) (col1 t)) (index_diff (map fst t)))"

definition argmin :: "real list \<Rightarrow> nat" where
  "argmin xs = length (takeWhile (\<lambda>x. fold min xs (hd xs) < x) xs)"

record harp_row =
  area :: fl
  residual :: fl
  area_lower :: fl
  area_upper :: fl

text \<open>
  Lines 116 to 133: with an intersection at \<open>x\<close> the limbs are built anew from the points
  up to \<open>x\<close> and from the points beyond it, and the two areas are combined.  The result is
  the area, the lower and the upper area.
\<close>

definition split_areas :: "point list \<Rightarrow> real \<Rightarrow> fl \<times> fl \<times> fl" where
  "split_areas df_all x =
     (let limbs1 = limbs_of (filter (\<lambda>p. QS p \<le> x) df_all);
          limbs2 = limbs_of (filter (\<lambda>p. QS p > x) df_all);
          area1 = limb_area limbs1;
          area2 = limb_area limbs2;
          total_area = fadd (fabs area1) (fabs area2);
          area_sign = (if fgt (fabs area1) (fabs area2) then np_sign area1 else np_sign area2)
      in (fmul area_sign total_area, area1, area2))"

text \<open>
  \<open>calculate_harp_metrics\<close>, lines 83 to 164, for the fields above.  The row nearest to
  the intersection is marked \<open>X\<close> in both switchpoint columns; when that row is the one
  marked \<open>gQ\<close> or \<open>gC\<close>, the mark of the global maximum is overwritten and the lookup of
  the peak time at lines 147 and 148 raises \<open>IndexError\<close>.  An empty frame raises as well.
  \<open>None\<close> is the exception.
\<close>

definition marked_row :: "point list \<Rightarrow> real \<Rightarrow> nat" where
  "marked_row df_all x = argmin (map (\<lambda>p. \<bar>QS p - x\<bar>) df_all)"

definition calculate_harp_metrics :: "(real \<times> real) list \<Rightarrow> isect_method \<Rightarrow> harp_row option" where
  "calculate_harp_metrics s m =
     (if s = [] then None
      else
        let df_all = prepare s;
            t = limbs_of df_all;
            xQS = find_intersection t m;
            xID = map_option (marked_row df_all) xQS;
            areas = (case xQS of
                       Some x \<Rightarrow> split_areas df_all x
                     | None \<Rightarrow> (limb_area t, NaN, NaN))
        in if xID = Some (argmax (map fst s)) \<or> xID = Some (argmax (map snd s)) then None
           else Some \<lparr> area = fst areas,
                       residual = Fin (CS (last df_all) - CS (hd df_all)),
                       area_lower = fst (snd areas),
                       area_upper = snd (snd areas) \<rparr>)"

text \<open>
  The integral of the specification: the trapezoidal rule for rising minus falling over the
  rows where both limbs are defined.
\<close>

definition trapezoid_spec :: "limbs \<Rightarrow> fl" where
  "trapezoid_spec t =
     (let c = dropna t; d = map2 fsub (col0 c) (col1 c); x = map fst c
      in foldl fadd (Fin 0)
           (map (\<lambda>i. fmul (fdiv (fadd (d ! i) (d ! Suc i)) (Fin 2)) (Fin (x ! Suc i - x ! i)))
                [0..<length c - 1]))"

text \<open>
  The area with an intersection at \<open>x\<close> in the words of the specification: the shared limb
  table is split at \<open>x\<close>, the trapezoidal rule integrates rising minus falling over the keys
  up to \<open>x\<close> and over the keys from \<open>x\<close> on, and the total is the sum of the two magnitudes
  with the sign of the larger one.
\<close>

definition lower_half :: "limbs \<Rightarrow> real \<Rightarrow> limbs" where
  "lower_half t x = filter (\<lambda>r. fst r \<le> x) t"

definition upper_half :: "limbs \<Rightarrow> real \<Rightarrow> limbs" where
  "upper_half t x = filter (\<lambda>r. x \<le> fst r) t"

definition split_area_spec :: "limbs \<Rightarrow> real \<Rightarrow> fl \<times> fl \<times> fl" where
  "split_area_spec t x =
     (let area1 = trapezoid_spec (lower_half t x);
          area2 = trapezoid_spec (upper_half t x);
          total_area = fadd (fabs area1) (fabs area2);
          area_sign = (if fgt (fabs area1) (fabs area2) then np_sign area1 else np_sign area2)
      in (fmul area_sign total_area, area1, area2))"


section \<open>The Zuecco index\<close>

text \<open>
  \<open>calculate_zuecco_metrics\<close> of \<open>zuecco.py\<close>, lines 105 to 133.  The grid
  \<open>np.linspace(0.15, 1.0, 18)\<close> has the step 0.05.
\<close>

definition x_fixed :: "real list" where
  "x_fixed = map (\<lambda>j. 0.15 + real j * 0.05) [0..<18]"

text \<open>
  \<open>reindex(x_fixed, method='nearest', tolerance=0.01, limit=1)\<close>: a grid point takes the
  row of the nearest key, the larger of two equally near ones, when that key is at most the
  tolerance away, and a row of NaN otherwise.  The keys are increasing.
\<close>

fun nearest :: "real \<Rightarrow> limbs \<Rightarrow> (real \<times> fl \<times> fl) option" where
  "nearest x [] = None"
| "nearest x (r # rs) =
     (case nearest x rs of
        None \<Rightarrow> Some r
      | Some r' \<Rightarrow> if \<bar>x - fst r\<bar> < \<bar>x - fst r'\<bar> then Some r else Some r')"

definition reindex_nearest :: "limbs \<Rightarrow> real list \<Rightarrow> limbs" where
  "reindex_nearest t xs =
     map (\<lambda>x. case nearest x t of
                 None \<Rightarrow> (x, NaN, NaN)
               | Some r \<Rightarrow> if \<bar>fst r - x\<bar> \<le> 0.01 then (x, snd r) else (x, NaN, NaN)) xs"

definition limbs_fixed_of :: "limbs \<Rightarrow> limbs" where
  "limbs_fixed_of t =
     (let limbs_fixed = interpolate (reindex_nearest t x_fixed)
      in if list_all isnan (col0 limbs_fixed) \<or> list_all isnan (col1 limbs_fixed) then
           map (\<lambda>x. (x, np_interp x (zip (map fst t) (col0 t)),
                        np_interp x (zip (map fst t) (col1 t)))) x_fixed
         else limbs_fixed)"






section \<open>The change percentiles\<close>

text \<open>
  \<open>compute_change_percentiles\<close> of \<open>gcs_core.py\<close>.  A row of the data frame has the site,
  the date and the two measured columns; a measured value is a finite real or missing (NaN).
  \<open>sort_values\<close> is taken as a stable sort.
\<close>

record observation =
  site_id :: string
  date :: int
  conc :: "real option"
  flow :: "real option"

text \<open>\<open>Series.diff()\<close>: NaN first, then the differences of consecutive values.\<close>

definition series_diff :: "real option list \<Rightarrow> real option list" where
  "series_diff xs =
     (case xs of
        [] \<Rightarrow> []
      | x # rest \<Rightarrow>
          None # map2 (\<lambda>a b. case (a, b) of (Some u, Some v) \<Rightarrow> Some (v - u) | _ \<Rightarrow> None) xs rest)"

definition site_changes :: "observation list \<Rightarrow> string \<Rightarrow> (real \<times> real) list" where
  "site_changes data site =
     (let site_data = sort_key date (filter (\<lambda>r. site_id r = site) data)
      in if length site_data > 1 then
           let conc_diffs = List.map_filter id (series_diff (map conc site_data));
               flow_diffs = List.map_filter id (series_diff (map flow site_data))
           in zip conc_diffs flow_diffs
         else [])"

definition pooled_changes :: "observation list \<Rightarrow> string list \<Rightarrow> (real \<times> real) list" where
  "pooled_changes data sites = concat (map (site_changes data) sites)"

text \<open>
  \<open>Series.quantile(q)\<close> with the default linear interpolation, as pandas computes it with
  \<open>np.percentile\<close>: on the sorted values the position is \<open>(n - 1) * q\<close>, and the result
  lies between the two neighbours of that position.
\<close>

definition quantile :: "real \<Rightarrow> real list \<Rightarrow> real" where
  "quantile q xs =
     (let s = sort xs;
          n = length s;
          h = real (n - 1) * q;
          lo = nat \<lfloor>h\<rfloor>;
          hi = min (lo + 1) (n - 1)
      in s ! lo + (h - real lo) * (s ! hi - s ! lo))"

text \<open>
  An empty list of changes gives a frame without columns, and the first
  \<open>changes_df['conc_diff']\<close> raises \<open>KeyError\<close>: the result is \<open>None\<close> then.
\<close>

definition compute_change_percentiles :: "observation list \<Rightarrow> string list \<Rightarrow> percentiles option" where
  "compute_change_percentiles data sites =
     (let changes = pooled_changes data sites
      in if changes = [] then None
         else
           let conc_diff = map fst changes;
               flow_diff = map snd changes
           in Some (map_of
                [(''dC_p01'', Fin (quantile 0.01 conc_diff)),
                 (''dC_p05'', Fin (quantile 0.05 conc_diff)),
                 (''dC_p08'', Fin (quantile 0.08 conc_diff)),
                 (''dC_p10'', Fin (quantile 0.10 conc_diff)),
                 (''dC_p25'', Fin (quantile 0.25 conc_diff)),
                 (''dC_p50'', Fin (quantile 0.50 conc_diff)),
                 (''dC_p75'', Fin (quantile 0.75 conc_diff)),
                 (''dC_p90'', Fin (quantile 0.90 conc_diff)),
                 (''dC_p95'', Fin (quantile 0.95 conc_diff)),
                 (''dQ_p05'', Fin (quantile 0.05 flow_diff)),
                 (''dQ_p10'', Fin (quantile 0.10 flow_diff)),
                 (''dQ_p25'', Fin (quantile 0.25 flow_diff)),
                 (''dQ_p50'', Fin (quantile 0.50 flow_diff)),
                 (''dQ_p75'', Fin (quantile 0.75 flow_diff)),
                 (''dQ_p90'', Fin (quantile 0.90 flow_diff)),
                 (''abs_dC_p50'', Fin (quantile 0.50 (map abs conc_diff))),
                 (''abs_dC_p75'', Fin (quantile 0.75 (map abs conc_diff))),
                 (''abs_dQ_p50'', Fin (quantile 0.50 (map abs flow_diff))),
                 (''abs_dQ_p75'', Fin (quantile 0.75 (map abs flow_diff)))]))"

text \<open>
  The median in the usual words: the middle value of the sorted list, or the mean of the two
  middle values.
\<close>

definition median :: "real list \<Rightarrow> real" where
  "median xs =
     (let s = sort xs; n = length s
      in if odd n then s ! (n div 2) else (s ! (n div 2 - 1) + s ! (n div 2)) / 2)"


section \<open>All hysteresis metrics\<close>

text \<open>
  \<open>calculate_all_hysteresis_metrics\<close> of \<open>gcs_core.py\<close>.  The three engines are
  parameters: each maps the frame to a one-table result and the processed frame, or raises.
  A metrics table has its column names and its rows; the function reads the first row only.
  An exception carries its message.
\<close>

datatype exn = Exn string

record metric_df =
  columns :: "string list"
  records :: "(string \<rightharpoonup> fl) list"

datatype pyval = PyFloat fl | PyInt int | PyStr string

record ('d, 'p) engines =
  harp :: "'d list \<Rightarrow> exn + metric_df \<times> 'p"
  zuecco :: "'d list \<Rightarrow> exn + metric_df \<times> 'p"
  lloyd :: "'d list \<Rightarrow> exn + metric_df \<times> 'p"

record 'p hysteresis_result =
  harp_metrics :: "string \<rightharpoonup> fl"
  zuecco_metrics :: "string \<rightharpoonup> fl"
  lloyd_metrics :: "string \<rightharpoonup> fl"
  classifications :: "string \<rightharpoonup> pyval"
  processed_data :: "string \<rightharpoonup> 'p"
  error :: "string option"

definition bind_exn :: "exn + 'a \<Rightarrow> ('a \<Rightarrow> exn + 'b) \<Rightarrow> exn + 'b" where
  "bind_exn m k = (case m of Inl e \<Rightarrow> Inl e | Inr x \<Rightarrow> k x)"

text \<open>\<open>df[col].values[0]\<close>: \<open>KeyError\<close> without the column, \<open>IndexError\<close> without a row.\<close>

definition first_value :: "metric_df \<Rightarrow> string \<Rightarrow> exn + fl" where
  "first_value df col =
     (if col \<notin> set (columns df) then Inl (Exn col)
      else case records df of
             [] \<Rightarrow> Inl (Exn ''index 0 is out of bounds for axis 0 with size 0'')
           | r # _ \<Rightarrow> (case r col of None \<Rightarrow> Inr NaN | Some x \<Rightarrow> Inr x))"

text \<open>\<open>int(x)\<close> of a float: NaN and the infinities raise.\<close>

fun py_int :: "fl \<Rightarrow> exn + int" where
  "py_int (Fin x) = Inr (if 0 \<le> x then \<lfloor>x\<rfloor> else \<lceil>x\<rceil>)"
| "py_int NaN = Inl (Exn ''cannot convert float NaN to integer'')"
| "py_int _ = Inl (Exn ''cannot convert float infinity to integer'')"

definition direction :: "fl \<Rightarrow> pyval" where
  "direction m =
     (if \<not> isnan m then
        if fgt m (Fin 0.1) then PyStr ''clockwise''
        else if flt m (Fin (- 0.1)) then PyStr ''counter-clockwise''
        else PyStr ''weak''
      else PyStr ''unknown'')"

text \<open>\<open>df.to_dict('records')[0] if len(df) > 0 else {}\<close>\<close>

definition first_record :: "metric_df \<Rightarrow> (string \<rightharpoonup> fl)" where
  "first_record df = (case records df of [] \<Rightarrow> Map.empty | r # _ \<Rightarrow> r |` set (columns df))"

text \<open>The body of the \<open>try\<close> statement, lines 72 to 134.\<close>

definition try_body :: "('d, 'p) engines \<Rightarrow> 'd list \<Rightarrow> exn + 'p hysteresis_result" where
  "try_body e df =
     bind_exn (harp e df) (\<lambda>(harp_m, harp_df).
     bind_exn (zuecco e df) (\<lambda>(zuecco_m, zuecco_df).
     bind_exn (lloyd e df) (\<lambda>(lloyd_m, lloyd_df).
     bind_exn
       (if ''hyst_class'' \<in> set (columns harp_m)
        then bind_exn (first_value harp_m ''hyst_class'')
               (\<lambda>x. Inr (Map.empty(''harp_class'' \<mapsto> PyFloat x)))
        else Inr Map.empty) (\<lambda>cls.
     bind_exn
       (if ''hyst_class'' \<in> set (columns zuecco_m)
        then bind_exn (first_value zuecco_m ''hyst_class'') (\<lambda>x.
             bind_exn (py_int x) (\<lambda>i. Inr (cls(''zuecco_class'' \<mapsto> PyInt i))))
        else Inr cls) (\<lambda>cls.
     bind_exn
       (if ''mean_HInew'' \<in> set (columns lloyd_m)
        then bind_exn (first_value lloyd_m ''mean_HInew'')
               (\<lambda>mean_hinew. Inr (cls(''lloyd_direction'' \<mapsto> direction mean_hinew)))
        else Inr cls) (\<lambda>cls.
     bind_exn
       (if ''mean_HIL'' \<in> set (columns lloyd_m)
        then bind_exn (first_value lloyd_m ''mean_HIL'')
               (\<lambda>mean_hil. Inr (cls(''lawler_direction'' \<mapsto> direction mean_hil)))
        else Inr cls) (\<lambda>cls.
     Inr \<lparr> harp_metrics = first_record harp_m,
           zuecco_metrics = first_record zuecco_m,
           lloyd_metrics = first_record lloyd_m,
           classifications = cls,
           processed_data =
             [''harp'' \<mapsto> harp_df, ''zuecco'' \<mapsto> zuecco_df, ''lloyd'' \<mapsto> lloyd_df],
           error = None \<rparr>)))))))"

definition error_marker :: "string \<Rightarrow> 'p hysteresis_result" where
  "error_marker msg =
     \<lparr> harp_metrics = Map.empty, zuecco_metrics = Map.empty, lloyd_metrics = Map.empty,
       classifications = Map.empty, processed_data = Map.empty, error = Some msg \<rparr>"

text \<open>
  The whole function: the guard on the length, then the \<open>try\<close> statement whose handler
  catches every \<open>Exception\<close>.  The result type keeps a place for an exception that would
  leave the function.
\<close>

definition calculate_all_hysteresis_metrics ::
  "('d, 'p) engines \<Rightarrow> 'd list \<Rightarrow> exn + 'p hysteresis_result" where
  "calculate_all_hysteresis_metrics e df =
     (if length df < 3 then Inr (error_marker ''Insufficient data points (need >= 3)'')
      else case try_body e df of
             Inr r \<Rightarrow> Inr r
           | Inl (Exn msg) \<Rightarrow> Inr (error_marker (''Calculation failed: '' @ msg)))"


section \<open>Auxiliary notions and example inputs\<close>

definition phases :: "string set" where
  "phases = {''F'', ''L'', ''C'', ''D'', ''R'', ''V''}"

text \<open>What a statement of the classifier owes when it returns.\<close>

definition ret_ok :: "outcome option \<Rightarrow> bool" where
  "ret_ok m =
     (case m of
        Some (Return (ph, c, rs)) \<Rightarrow> ph \<in> phases \<and> 0 \<le> c \<and> c \<le> 1 \<and> rs \<noteq> []
      | _ \<Rightarrow> True)"

definition demo_percentiles :: percentiles where
  "demo_percentiles = map_of
     [(''dC_p01'', Fin (- 20)), (''dC_p08'', Fin (- 8)), (''dC_p25'', Fin (- 2)),
      (''dC_p90'', Fin 9), (''dQ_p10'', Fin (- 5)), (''dQ_p25'', Fin (- 1)),
      (''dQ_p75'', Fin 4), (''abs_dC_p75'', Fin 6)]"

definition flushing_row :: row where
  "flushing_row =
     \<lparr> num = map_of [(''conc_diff'', Fin (- 12)), (''flow_diff'', Fin 3),
                      (''cq_slope_loglog'', Fin 0.4), (''WAI'', Fin 2)],
       str = map_of [(''Q_position'', ''high''), (''C_position'', ''high'')] \<rparr>"

definition first_row :: row where
  "first_row = \<lparr> num = Map.empty, str = map_of [(''HI_transition'', ''first'')] \<rparr>"

definition coincident_series :: "(real \<times> real) list" where
  "coincident_series = [(0, 0), (1 / 2, 1 / 2), (1, 1), (1 / 2, 1 / 2), (0, 0)]"

text \<open>The value of a quantile at a position of the sorted list.\<close>

definition at_position :: "real list \<Rightarrow> real \<Rightarrow> real" where
  "at_position s h =
     (let lo = nat \<lfloor>h\<rfloor>; hi = min (lo + 1) (length s - 1)
      in s ! lo + (h - real lo) * (s ! hi - s ! lo))"

text \<open>
  The pooled concentration changes in the words of the specification: per site, in date
  order, the differences of consecutive measured concentrations.
\<close>

definition successive_differences :: "real list \<Rightarrow> real list" where
  "successive_differences xs = map (\<lambda>i. xs ! Suc i - xs ! i) [0..<length xs - 1]"

definition pooled_dC_spec :: "observation list \<Rightarrow> string list \<Rightarrow> real list" where
  "pooled_dC_spec data sites =
     concat (map (\<lambda>site. successive_differences
                    (List.map_filter conc (sort_key date (filter (\<lambda>r. site_id r = site) data))))
                 sites)"

definition demo_data :: "observation list" where
  "demo_data =
     [\<lparr> site_id = ''A'', date = 3, conc = Some 2, flow = Some 11 \<rparr>,
      \<lparr> site_id = ''A'', date = 1, conc = Some 1, flow = Some 10 \<rparr>,
      \<lparr> site_id = ''B'', date = 1, conc = Some 9, flow = Some 3 \<rparr>,
      \<lparr> site_id = ''A'', date = 2, conc = Some 4, flow = Some 12 \<rparr>,
      \<lparr> site_id = ''A'', date = 4, conc = Some 7, flow = Some 15 \<rparr>]"

text \<open>One site of which the second flow value is missing, and the same site without flows.\<close>

definition gappy_data :: "observation list" where
  "gappy_data =
     [\<lparr> site_id = ''A'', date = 1, conc = Some 1, flow = Some 10 \<rparr>,
      \<lparr> site_id = ''A'', date = 2, conc = Some 2, flow = None \<rparr>,
      \<lparr> site_id = ''A'', date = 3, conc = Some 4, flow = Some 12 \<rparr>,
      \<lparr> site_id = ''A'', date = 4, conc = Some 7, flow = Some 15 \<rparr>]"

definition flowless_data :: "observation list" where
  "flowless_data =
     [\<lparr> site_id = ''A'', date = 1, conc = Some 1, flow = None \<rparr>,
      \<lparr> site_id = ''A'', date = 2, conc = Some 2, flow = None \<rparr>,
      \<lparr> site_id = ''A'', date = 3, conc = Some 4, flow = None \<rparr>,
      \<lparr> site_id = ''A'', date = 4, conc = Some 7, flow = None \<rparr>]"

text \<open>Engines of which the first raises; the frame is a list of row numbers.\<close>

definition failing_engines :: "(nat, unit) engines" where
  "failing_engines =
     \<lparr> harp = (\<lambda>df. Inl (Exn ''index 0 is out of bounds for axis 0 with size 0'')),
       zuecco = (\<lambda>df. Inr (\<lparr> columns = [''h_index'', ''hyst_class''],
                                records = [[''h_index'' \<mapsto> Fin 0, ''hyst_class'' \<mapsto> NaN]] \<rparr>, ())),
       lloyd = (\<lambda>df. Inr (\<lparr> columns = [''mean_HInew''], records = [] \<rparr>, ())) \<rparr>"

text \<open>The two series of the HARP examples: their limbs cross, and do not cross.\<close>

definition crossing_series :: "(real \<times> real) list" where
  "crossing_series = [(0, 0), (1 / 2, 1), (1, 1 / 2), (1 / 2, 1 / 4), (0, 1 / 2)]"

definition declining_series :: "(real \<times> real) list" where
  "declining_series = [(0, 0), (1 / 2, 1 / 5), (1, 1), (1 / 2, 4 / 5), (0, 3 / 5)]"

text \<open>
  A series of nine points whose limbs cross inside the domain, at a quarter of the scaled
  discharge, and a series whose intersection is marked on the row of the concentration peak.
\<close>

definition tilted_series :: "(real \<times> real) list" where
  "tilted_series =
     [(0, 0), (1 / 4, 1 / 10), (1 / 2, 3 / 5), (3 / 4, 1), (1, 4 / 5),
      (3 / 4, 9 / 10), (1 / 2, 1 / 2), (1 / 4, 9 / 10), (0, 1 / 2)]"

definition peak_crossing_series :: "(real \<times> real) list" where
  "peak_crossing_series = [(0, 3 / 10), (1 / 2, 1), (1, 1), (1 / 2, 1 / 2), (0, 1 / 5)]"

text \<open>A cell that is NaN or finite, and the value of a finite cell.\<close>

definition regular :: "fl \<Rightarrow> bool" where
  "regular x = (x = NaN \<or> isfinite x)"

fun fin :: "fl \<Rightarrow> real" where
  "fin (Fin x) = x"
| "fin _ = 0"

definition regular_table :: "limbs \<Rightarrow> bool" where
  "regular_table t = (\<forall>r \<in> set t. regular (fst (snd r)) \<and> regular (snd (snd r)))"

text \<open>
  What the area expression of HARP computes: the sum, over the rows after the first where
  both limbs have a value, of rising minus falling times the step from the previous key.
\<close>

definition rectangle_sum :: "limbs \<Rightarrow> real" where
  "rectangle_sum t =
     (\<Sum>i \<in> {i. 1 \<le> i \<and> i < length t \<and> isfinite (col0 t ! i) \<and> isfinite (col1 t ! i)}.
        (fin (col0 t ! i) - fin (col1 t ! i)) * (fst (t ! i) - fst (t ! (i - 1))))"

definition area_term :: "limbs \<Rightarrow> nat \<Rightarrow> fl" where
  "area_term t i = fmul (fsub (col0 t ! i) (col1 t ! i)) (index_diff (map fst t) ! i)"

text \<open>No change of sign between the limbs, on the rows where both have a value.\<close>

definition no_sign_change :: "limbs \<Rightarrow> bool" where
  "no_sign_change t =
     (let d = map2 fsub (col0 (dropna t)) (col1 (dropna t))
      in list_all (\<lambda>i. np_sign (d ! Suc i) = np_sign (d ! i)) [0..<length d - 1])"





section \<open>Properties of the simple behaviour classifier\<close>

lemma flt_asym: "flt a b \<Longrightarrow> \<not> flt b a"
  by (cases a; cases b) auto

lemma fle_not_fgt: "fle a b \<Longrightarrow> \<not> fgt a b"
  by (cases a; cases b) (auto simp: fle_def fgt_def feq_def)

lemma classify_cq_connectivity_case:
  "classify_cq_behavior_simple (Fin 20) (Fin 5) (Fin 0, Fin 100) (Fin 0, Fin 10) (Fin 0.01)
     = ''connectivity''"
  by (simp add: classify_cq_behavior_simple_def is_changing_def range_delta_def fsub_def fgt_def)

lemma classify_cq_static_case:
  "classify_cq_behavior_simple (Fin 0.001) (Fin 0.001) (Fin 0, Fin 100) (Fin 0, Fin 10) (Fin 0.01)
     = ''static''"
  by (simp add: classify_cq_behavior_simple_def is_changing_def range_delta_def fsub_def fgt_def)

text \<open>
  Claim C6, as the code has it.  A change is significant iff the span of its range exceeds
  \<open>1e-10\<close> and the absolute value of the change exceeds \<open>threshold_factor\<close> times the
  span.  With \<open>sq\<close> and \<open>sc\<close> the significance of the flow and of the concentration
  change: neither gives \<open>static\<close>, the flow alone \<open>quasi-chemostatic\<close>, the concentration
  alone \<open>source variation\<close>; both, with both changes positive, \<open>connectivity\<close>, both
  negative \<open>recovery\<close>, flow up and concentration down \<open>dispersion\<close>, flow down and
  concentration up \<open>accumulation\<close>.  The two concrete cases of the specification hold.
\<close>

theorem classify_cq_behavior_simple_table:
  assumes sq: "sq = (fgt (range_delta fr) (Fin (1 / 10 ^ 10)) \<and> significant_spec dq fr tf)"
    and sc: "sc = (fgt (range_delta cr) (Fin (1 / 10 ^ 10)) \<and> significant_spec dc cr tf)"
    and r: "r = classify_cq_behavior_simple dq dc fr cr tf"
  shows "(\<not> sq \<and> \<not> sc \<longrightarrow> r = ''static'')
       \<and> (sq \<and> \<not> sc \<longrightarrow> r = ''quasi-chemostatic'')
       \<and> (\<not> sq \<and> sc \<longrightarrow> r = ''source variation'')
       \<and> (sq \<and> sc \<and> fgt dq (Fin 0) \<and> fgt dc (Fin 0) \<longrightarrow> r = ''connectivity'')
       \<and> (sq \<and> sc \<and> flt dq (Fin 0) \<and> flt dc (Fin 0) \<longrightarrow> r = ''recovery'')
       \<and> (sq \<and> sc \<and> fgt dq (Fin 0) \<and> flt dc (Fin 0) \<longrightarrow> r = ''dispersion'')
       \<and> (sq \<and> sc \<and> flt dq (Fin 0) \<and> fgt dc (Fin 0) \<longrightarrow> r = ''accumulation'')
       \<and> classify_cq_behavior_simple (Fin 20) (Fin 5) (Fin 0, Fin 100) (Fin 0, Fin 10) (Fin 0.01)
           = ''connectivity''
       \<and> classify_cq_behavior_simple (Fin 0.001) (Fin 0.001) (Fin 0, Fin 100) (Fin 0, Fin 10)
             (Fin 0.01) = ''static''"
proof -
  have q: "is_changing dq (range_delta fr) tf = sq"
    by (simp add: sq is_changing_def significant_spec_def)
  have c: "is_changing dc (range_delta cr) tf = sc"
    by (simp add: sc is_changing_def significant_spec_def)
  have tab: "r = (if \<not> sq \<and> \<not> sc then ''static''
         else if sq \<and> \<not> sc then ''quasi-chemostatic''
         else if \<not> sq \<and> sc then ''source variation''
         else if fgt dq (Fin 0) \<and> fgt dc (Fin 0) then ''connectivity''
         else if flt dq (Fin 0) \<and> flt dc (Fin 0) then ''recovery''
         else if fgt dq (Fin 0) \<and> flt dc (Fin 0) then ''dispersion''
         else ''accumulation'')"
    unfolding r classify_cq_behavior_simple_def Let_def q c by (rule refl)
  show ?thesis
    using flt_asym[of dq "Fin 0"] flt_asym[of "Fin 0" dq] flt_asym[of dc "Fin 0"]
      flt_asym[of "Fin 0" dc] classify_cq_connectivity_case classify_cq_static_case
    by (auto simp: tab fgt_def)
qed

theorem classify_cq_behavior_simple_table_witness:
  "fgt (range_delta (Fin 0, Fin 100)) (Fin (1 / 10 ^ 10))
   \<and> significant_spec (Fin (- 20)) (Fin 0, Fin 100) (Fin 0.01)
   \<and> fgt (range_delta (Fin 0, Fin 10)) (Fin (1 / 10 ^ 10))
   \<and> significant_spec (Fin 5) (Fin 0, Fin 10) (Fin 0.01)
   \<and> flt (Fin (- 20)) (Fin 0) \<and> fgt (Fin 5) (Fin 0)
   \<and> classify_cq_behavior_simple (Fin (- 20)) (Fin 5) (Fin 0, Fin 100) (Fin 0, Fin 10) (Fin 0.01)
       = ''accumulation''"
proof -
  have sq: "fgt (range_delta (Fin 0, Fin 100)) (Fin (1 / 10 ^ 10))
      \<and> significant_spec (Fin (- 20)) (Fin 0, Fin 100) (Fin 0.01)"
    by (simp add: range_delta_def fsub_def fgt_def significant_spec_def)
  have sc: "fgt (range_delta (Fin 0, Fin 10)) (Fin (1 / 10 ^ 10))
      \<and> significant_spec (Fin 5) (Fin 0, Fin 10) (Fin 0.01)"
    by (simp add: range_delta_def fsub_def fgt_def significant_spec_def)
  have sg: "flt (Fin (- 20)) (Fin 0) \<and> fgt (Fin 5) (Fin 0)"
    by (simp add: fgt_def)
  from classify_cq_behavior_simple_table[where dq = "Fin (- 20)" and dc = "Fin 5"
      and fr = "(Fin 0, Fin 100)" and cr = "(Fin 0, Fin 10)" and tf = "Fin 0.01",
      OF refl refl refl] sq sc sg
  show ?thesis by blast
qed

text \<open>
  The claim as the specification words it fails: with the flow range \<open>(0, 1e-11)\<close> a flow
  change of \<open>1e-11\<close> exceeds one percent of the span and is positive, the concentration
  change 5 in the range \<open>(0, 10)\<close> is significant and positive, and the code answers
  \<open>source variation\<close>, not \<open>connectivity\<close>.
\<close>

theorem classify_cq_behavior_simple_counterexample:
  "significant_spec (Fin (1 / 10 ^ 11)) (Fin 0, Fin (1 / 10 ^ 11)) (Fin 0.01)
   \<and> significant_spec (Fin 5) (Fin 0, Fin 10) (Fin 0.01)
   \<and> fgt (Fin (1 / 10 ^ 11)) (Fin 0) \<and> fgt (Fin 5) (Fin 0)
   \<and> classify_cq_behavior_simple (Fin (1 / 10 ^ 11)) (Fin 5) (Fin 0, Fin (1 / 10 ^ 11))
        (Fin 0, Fin 10) (Fin 0.01) = ''source variation''
   \<and> classify_cq_behavior_simple (Fin (1 / 10 ^ 11)) (Fin 5) (Fin 0, Fin (1 / 10 ^ 11))
        (Fin 0, Fin 10) (Fin 0.01) \<noteq> ''connectivity''"
  by (simp add: classify_cq_behavior_simple_def is_changing_def range_delta_def fsub_def fgt_def
      significant_spec_def)

text \<open>
  Claim C10.  When the span of the flow range is at most \<open>1e-10\<close> the flow change counts
  as insignificant whatever its size: the answer is \<open>source variation\<close> or \<open>static\<close>,
  as the concentration alone decides.  Likewise for the concentration range.  When both
  spans are degenerate the answer is \<open>static\<close>.
\<close>

theorem degenerate_range_insignificant:
  "(fle (range_delta fr) (Fin (1 / 10 ^ 10)) \<longrightarrow>
      \<not> is_changing dq (range_delta fr) tf
      \<and> classify_cq_behavior_simple dq dc fr cr tf =
          (if is_changing dc (range_delta cr) tf then ''source variation'' else ''static''))
 \<and> (fle (range_delta cr) (Fin (1 / 10 ^ 10)) \<longrightarrow>
      \<not> is_changing dc (range_delta cr) tf
      \<and> classify_cq_behavior_simple dq dc fr cr tf =
          (if is_changing dq (range_delta fr) tf then ''quasi-chemostatic'' else ''static''))
 \<and> (fle (range_delta fr) (Fin (1 / 10 ^ 10)) \<and> fle (range_delta cr) (Fin (1 / 10 ^ 10)) \<longrightarrow>
      classify_cq_behavior_simple dq dc fr cr tf = ''static'')"
  using fle_not_fgt[of "range_delta fr" "Fin (1 / 10 ^ 10)"]
    fle_not_fgt[of "range_delta cr" "Fin (1 / 10 ^ 10)"]
  by (auto simp: classify_cq_behavior_simple_def is_changing_def Let_def)

theorem degenerate_range_insignificant_witness:
  "fle (range_delta (Fin 3, Fin 3)) (Fin (1 / 10 ^ 10))
   \<and> fle (range_delta (Fin 7, Fin 7)) (Fin (1 / 10 ^ 10))
   \<and> classify_cq_behavior_simple (Fin 1000000) (Fin (- 1000000)) (Fin 3, Fin 3) (Fin 7, Fin 7)
        (Fin 0.01) = ''static''"
proof -
  have a: "fle (range_delta (Fin 3, Fin 3)) (Fin (1 / 10 ^ 10))"
    by (simp add: range_delta_def fsub_def fle_def)
  have b: "fle (range_delta (Fin 7, Fin 7)) (Fin (1 / 10 ^ 10))"
    by (simp add: range_delta_def fsub_def fle_def)
  from degenerate_range_insignificant[where dq = "Fin 1000000" and dc = "Fin (- 1000000)"
      and fr = "(Fin 3, Fin 3)" and cr = "(Fin 7, Fin 7)" and tf = "Fin 0.01"] a b
  show ?thesis by blast
qed


section \<open>Properties of the phase classifier\<close>

lemma phases_simps:
  "''F'' \<in> phases" "''L'' \<in> phases" "''C'' \<in> phases" "''D'' \<in> phases" "''R'' \<in> phases"
  "''V'' \<in> phases"
  by (simp_all add: phases_def)

lemma ret_ok_simps:
  "ret_ok None"
  "ret_ok (Some (Continue rules))"
  "ret_ok (Some (Return (ph, c, rs))) = (ph \<in> phases \<and> 0 \<le> c \<and> c \<le> 1 \<and> rs \<noteq> [])"
  "ret_ok (if b then x else y) = (if b then ret_ok x else ret_ok y)"
  "ret_ok (Option.bind m f) = (case m of None \<Rightarrow> True | Some a \<Rightarrow> ret_ok (f a))"
  "ret_ok (or_else x k) = (ret_ok x \<and> (\<forall>rules. x = Some (Continue rules) \<longrightarrow> ret_ok (k rules)))"
  by (auto simp: ret_ok_def or_else_def split: option.splits outcome.splits bind_splits)

lemmas ret_ok_setup = ret_ok_simps phases_simps Let_def

lemma flush_current_ok: "ret_ok (flush_current v p rules)"
  unfolding flush_current_def by (simp add: ret_ok_setup split: option.splits)

lemma flush_aftermath_ok: "ret_ok (flush_aftermath v p rules)"
  unfolding flush_aftermath_def by (simp add: ret_ok_setup split: option.splits)

lemma flush_extended_ok: "ret_ok (flush_extended v p rules)"
  unfolding flush_extended_def by (simp add: ret_ok_setup split: option.splits)

lemma flush_extreme_ok: "ret_ok (flush_extreme v p rules)"
  unfolding flush_extreme_def by (simp add: ret_ok_setup split: option.splits)

lemma load_high_rising_ok: "ret_ok (load_high_rising v p rules)"
  unfolding load_high_rising_def by (simp add: ret_ok_setup split: option.splits)

lemma load_large_increase_ok: "ret_ok (load_large_increase v p rules)"
  unfolding load_large_increase_def by (simp add: ret_ok_setup split: option.splits)

lemma chemostatic_ok: "ret_ok (chemostatic v p rules)"
proof (cases "p ''dC_p25''")
  case None
  then show ?thesis by (simp add: chemostatic_def ret_ok_simps)
next
  case a: (Some a)
  show ?thesis
    by (cases "p ''dC_p08''"; cases "p ''abs_dC_p75''")
       (simp_all add: chemostatic_def a ret_ok_setup)
qed

lemma dilution_ok: "ret_ok (dilution v p rules)"
  unfolding dilution_def by (simp add: ret_ok_setup split: option.splits)

lemma recession_ok: "ret_ok (recession v p rules)"
  unfolding recession_def by (simp add: ret_ok_setup split: option.splits)

lemma variable_fallback_ok: "ret_ok (Some (Return (variable_fallback v rules)))"
  unfolding variable_fallback_def by (simp add: ret_ok_setup)

text \<open>The run of the statements returns what one of them, or the fallback, returns.\<close>

lemma run_ok:
  assumes "\<And>s rules. s \<in> set ss \<Longrightarrow> ret_ok (s rules)"
    and "\<And>rules. ret_ok (Some (Return (final rules)))"
    and "run ss final rules = Some (ph, c, rs)"
  shows "ph \<in> phases \<and> 0 \<le> c \<and> c \<le> 1 \<and> rs \<noteq> []"
  using assms
proof (induction ss arbitrary: rules)
  case Nil
  from Nil(2)[of rules] Nil(3) show ?case by (simp add: ret_ok_def)
next
  case (Cons s ss)
  have s: "ret_ok (s rules)" using Cons.prems(1) by simp
  show ?case
  proof (cases "s rules")
    case None
    with Cons.prems(3) show ?thesis by simp
  next
    case (Some out)
    show ?thesis
    proof (cases out)
      case (Return r)
      with Some Cons.prems(3) s show ?thesis by (simp add: ret_ok_def)
    next
      case (Continue rules')
      with Some Cons.prems(3) have "run ss final rules' = Some (ph, c, rs)" by simp
      with Cons.IH[of rules'] Cons.prems(1,2) show ?thesis by simp
    qed
  qed
qed

lemma run_total:
  assumes "\<And>s rules. s \<in> set ss \<Longrightarrow> s rules \<noteq> None"
  shows "run ss final rules \<noteq> None"
  using assms
proof (induction ss arbitrary: rules)
  case Nil
  show ?case by simp
next
  case (Cons s ss)
  from Cons.prems[of s rules] obtain out where out: "s rules = Some out" by auto
  show ?case
    using out Cons.IH Cons.prems by (cases out) simp_all
qed

lemma threshold_keys_present:
  assumes "threshold_keys \<subseteq> dom p"
  shows "\<exists>a b c d e f g h. p ''dC_p01'' = Some a \<and> p ''dC_p08'' = Some b \<and> p ''dC_p25'' = Some c
   \<and> p ''dC_p90'' = Some d \<and> p ''dQ_p10'' = Some e \<and> p ''dQ_p25'' = Some f
   \<and> p ''dQ_p75'' = Some g \<and> p ''abs_dC_p75'' = Some h"
proof -
  have "''dC_p01'' \<in> dom p" "''dC_p08'' \<in> dom p" "''dC_p25'' \<in> dom p" "''dC_p90'' \<in> dom p"
    "''dQ_p10'' \<in> dom p" "''dQ_p25'' \<in> dom p" "''dQ_p75'' \<in> dom p" "''abs_dC_p75'' \<in> dom p"
    using assms unfolding threshold_keys_def by blast+
  then show ?thesis by (simp add: dom_def)
qed

lemma statements_total:
  assumes "threshold_keys \<subseteq> dom p"
  shows "flush_current v p rules \<noteq> None" "flush_aftermath v p rules \<noteq> None"
    "flush_extended v p rules \<noteq> None" "flush_extreme v p rules \<noteq> None"
    "load_high_rising v p rules \<noteq> None" "load_large_increase v p rules \<noteq> None"
    "chemostatic v p rules \<noteq> None" "dilution v p rules \<noteq> None" "recession v p rules \<noteq> None"
proof -
  from threshold_keys_present[OF assms] obtain a b c d e f g h where
    k: "p ''dC_p01'' = Some a" "p ''dC_p08'' = Some b" "p ''dC_p25'' = Some c"
    "p ''dC_p90'' = Some d" "p ''dQ_p10'' = Some e" "p ''dQ_p25'' = Some f"
    "p ''dQ_p75'' = Some g" "p ''abs_dC_p75'' = Some h" by blast
  show "flush_current v p rules \<noteq> None" by (simp add: flush_current_def k Let_def)
  show "flush_aftermath v p rules \<noteq> None" by (simp add: flush_aftermath_def k Let_def)
  show "flush_extended v p rules \<noteq> None" by (simp add: flush_extended_def k Let_def)
  show "flush_extreme v p rules \<noteq> None" by (simp add: flush_extreme_def k Let_def)
  show "load_high_rising v p rules \<noteq> None" by (simp add: load_high_rising_def Let_def)
  show "load_large_increase v p rules \<noteq> None" by (simp add: load_large_increase_def k Let_def)
  show "chemostatic v p rules \<noteq> None" by (simp add: chemostatic_def k Let_def)
  show "dilution v p rules \<noteq> None" by (simp add: dilution_def k Let_def or_else_def)
  show "recession v p rules \<noteq> None" by (simp add: recession_def k Let_def or_else_def)
qed

lemma classify_total:
  assumes "threshold_keys \<subseteq> dom p"
  shows "classify_segment_phase r p \<noteq> None"
  unfolding classify_segment_phase_def Let_def
  by (rule run_total) (use statements_total[OF assms] in auto)

lemma classify_ok:
  assumes "classify_segment_phase r p = Some (ph, c, rs)"
  shows "ph \<in> phases \<and> 0 \<le> c \<and> c \<le> 1 \<and> rs \<noteq> []"
proof (rule run_ok[OF _ _ assms[unfolded classify_segment_phase_def Let_def]])
  fix s rules
  assume "s \<in> set [flush_current (extract_vars r) p, flush_aftermath (extract_vars r) p,
           flush_extended (extract_vars r) p, flush_extreme (extract_vars r) p,
           load_high_rising (extract_vars r) p, load_large_increase (extract_vars r) p,
           chemostatic (extract_vars r) p, dilution (extract_vars r) p,
           recession (extract_vars r) p]"
  then show "ret_ok (s rules)"
    using flush_current_ok flush_aftermath_ok flush_extended_ok flush_extreme_ok
      load_high_rising_ok load_large_increase_ok chemostatic_ok dilution_ok recession_ok
    by auto
next
  fix rules
  show "ret_ok (Some (Return (variable_fallback (extract_vars r) rules)))"
    by (rule variable_fallback_ok)
qed

lemma demo_keys: "threshold_keys \<subseteq> dom demo_percentiles"
  by (simp add: threshold_keys_def demo_percentiles_def)

lemma flushing_row_result:
  "classify_segment_phase flushing_row demo_percentiles =
     Some (''F'', 0.98, [''current_steep_decline'', ''q_high_or_peak'',
                         ''positive_cq_slope_dilution'', ''c_was_high'', ''high_wai_wet''])"
  by (simp add: classify_segment_phase_def extract_vars_def flushing_row_def demo_percentiles_def
      get_num_def get_str_def flush_current_def q_at_peak_def q_high_def cq_slope_positive_def
      c_was_high_def isnan_def fgt_def Let_def)

text \<open>
  Claim C1.  Whenever \<open>classify_segment_phase\<close> returns, the phase is one of \<open>F\<close>,
  \<open>L\<close>, \<open>C\<close>, \<open>D\<close>, \<open>R\<close>, \<open>V\<close> and the confidence lies in the closed interval from 0
  to 1; and it returns for every row and every threshold mapping that holds the keys the
  classifier reads.
\<close>

theorem classify_segment_phase_range:
  "(\<forall>phase confidence rules.
      classify_segment_phase r percentiles = Some (phase, confidence, rules) \<longrightarrow>
      phase \<in> {''F'', ''L'', ''C'', ''D'', ''R'', ''V''} \<and> 0 \<le> confidence \<and> confidence \<le> 1)
   \<and> (threshold_keys \<subseteq> dom percentiles \<longrightarrow>
        (\<exists>phase confidence rules.
           classify_segment_phase r percentiles = Some (phase, confidence, rules)))"
proof -
  have "classify_segment_phase r percentiles \<noteq> None" if "threshold_keys \<subseteq> dom percentiles"
    using that by (rule classify_total)
  then show ?thesis
    using classify_ok[of r percentiles] unfolding phases_def by auto
qed

theorem classify_segment_phase_range_witness:
  "threshold_keys \<subseteq> dom demo_percentiles
   \<and> (\<exists>rules. classify_segment_phase flushing_row demo_percentiles = Some (''F'', 0.98, rules))
   \<and> ''F'' \<in> {''F'', ''L'', ''C'', ''D'', ''R'', ''V''} \<and> (0::real) \<le> 0.98 \<and> (0.98::real) \<le> 1"
  using classify_segment_phase_range[of flushing_row demo_percentiles] demo_keys
    flushing_row_result
  by simp

lemma first_row_result:
  "classify_segment_phase first_row demo_percentiles = Some (''V'', 0.60, [''fallback_variable''])"
  by (simp add: classify_segment_phase_def extract_vars_def first_row_def demo_percentiles_def
      get_num_def get_str_def flush_current_def flush_aftermath_def flush_extended_def
      flush_extreme_def load_high_rising_def load_large_increase_def chemostatic_def
      dilution_def recession_def variable_fallback_def or_else_def
      q_at_peak_def q_high_def cq_slope_positive_def c_high_rising_def post_peak_phase_def
      late_cycle_def isnan_def fgt_def Let_def)

text \<open>
  Claim C9.  Whenever \<open>classify_segment_phase\<close> returns, the list of triggered rules is
  not empty; and it returns for every row and every threshold mapping that holds the keys
  the classifier reads.
\<close>

theorem classify_segment_phase_rules_nonempty:
  "(\<forall>phase confidence rules.
      classify_segment_phase r percentiles = Some (phase, confidence, rules) \<longrightarrow> rules \<noteq> [])
   \<and> (threshold_keys \<subseteq> dom percentiles \<longrightarrow>
        (\<exists>phase confidence rules.
           classify_segment_phase r percentiles = Some (phase, confidence, rules)
           \<and> rules \<noteq> []))"
proof -
  have "classify_segment_phase r percentiles \<noteq> None" if "threshold_keys \<subseteq> dom percentiles"
    using that by (rule classify_total)
  then show ?thesis
    using classify_ok[of r percentiles] by auto
qed

theorem classify_segment_phase_rules_nonempty_witness:
  "threshold_keys \<subseteq> dom demo_percentiles
   \<and> classify_segment_phase first_row demo_percentiles = Some (''V'', 0.60, [''fallback_variable''])
   \<and> [''fallback_variable''] \<noteq> []"
  using classify_segment_phase_rules_nonempty[of first_row demo_percentiles] demo_keys
    first_row_result
  by simp


section \<open>Properties of the Lawler and Lloyd indices\<close>

lemma equal_samples:
  assumes "feq a b"
  shows "(isfinite a \<longrightarrow>
            lloyd_HInew a b = Fin 0 \<and> lawler_HIL a b = (if a = Fin 0 then NaN else Fin 0))
       \<and> (\<not> isfinite a \<longrightarrow> lloyd_HInew a b = NaN \<and> lawler_HIL a b = NaN)"
  using assms
  by (cases a; cases b)
     (auto simp: feq_def lloyd_HInew_def lawler_HIL_def fmax_def fgt_def fsub_def Let_def
        signed_inf_def)

lemma HI_data_row:
  "r \<in> set (HI_data samples) \<Longrightarrow>
     \<exists>a b. (a, b) \<in> set samples
        \<and> r = \<lparr> HIL = lawler_HIL a b, HInew = lloyd_HInew a b, RLi = a, FLi = b \<rparr>"
  by (auto simp: HI_data_def)

lemma coincident_rows:
  "lawlerlloyd_HI_data coincident_series = Some
   [\<lparr>HIL = Fin 0, HInew = Fin 0, RLi = Fin (1 / 10), FLi = Fin (1 / 10)\<rparr>,
    \<lparr>HIL = Fin 0, HInew = Fin 0, RLi = Fin (1 / 5), FLi = Fin (1 / 5)\<rparr>,
    \<lparr>HIL = Fin 0, HInew = Fin 0, RLi = Fin (3 / 10), FLi = Fin (3 / 10)\<rparr>,
    \<lparr>HIL = Fin 0, HInew = Fin 0, RLi = Fin (2 / 5), FLi = Fin (2 / 5)\<rparr>,
    \<lparr>HIL = Fin 0, HInew = Fin 0, RLi = Fin (1 / 2), FLi = Fin (1 / 2)\<rparr>,
    \<lparr>HIL = Fin (- (1 / 5)), HInew = Fin (- (1 / 6)), RLi = Fin (1 / 2), FLi = Fin (3 / 5)\<rparr>,
    \<lparr>HIL = Fin (- (2 / 5)), HInew = Fin (- (2 / 7)), RLi = Fin (1 / 2), FLi = Fin (7 / 10)\<rparr>,
    \<lparr>HIL = Fin (- (3 / 5)), HInew = Fin (- (3 / 8)), RLi = Fin (1 / 2), FLi = Fin (4 / 5)\<rparr>,
    \<lparr>HIL = Fin (- (4 / 5)), HInew = Fin (- (4 / 9)), RLi = Fin (1 / 2), FLi = Fin (9 / 10)\<rparr>]"
  by code_simp

text \<open>
  Claim C5, as the code has it.  At every percentile sample where the rising-limb value
  equals the falling-limb value and is finite, the Lloyd index \<open>HInew\<close> is 0, and the Lawler
  index \<open>HIL\<close> is NaN when the common value is 0 and is 0 otherwise.  (Equal infinite
  samples give NaN for both indices.)
\<close>

theorem lawlerlloyd_equal_limbs:
  assumes "lawlerlloyd_HI_data s = Some rows" and "r \<in> set rows" and "feq (RLi r) (FLi r)"
  shows "(isfinite (RLi r) \<longrightarrow>
            HInew r = Fin 0 \<and> HIL r = (if RLi r = Fin 0 then NaN else Fin 0))
       \<and> (\<not> isfinite (RLi r) \<longrightarrow> HInew r = NaN \<and> HIL r = NaN)"
proof -
  from assms(1) have "rows = HI_data (map (sample_limbs (limbs_of (prepare s))) lloyd_percentiles)"
    by (simp add: lawlerlloyd_HI_data_def split: if_splits)
  with assms(2) obtain a b where
    r: "r = \<lparr> HIL = lawler_HIL a b, HInew = lloyd_HInew a b, RLi = a, FLi = b \<rparr>"
    using HI_data_row by blast
  from assms(3) have "feq a b" by (simp add: r)
  from equal_samples[OF this] show ?thesis by (simp add: r)
qed

theorem lawlerlloyd_equal_limbs_witness:
  "(\<exists>rows. lawlerlloyd_HI_data coincident_series = Some rows
      \<and> \<lparr>HIL = Fin 0, HInew = Fin 0, RLi = Fin (1 / 2), FLi = Fin (1 / 2)\<rparr> \<in> set rows)
   \<and> feq (Fin (1 / 2)) (Fin (1 / 2)) \<and> isfinite (Fin (1 / 2))"
proof -
  let ?r = "\<lparr>HIL = Fin 0, HInew = Fin 0, RLi = Fin (1 / 2), FLi = Fin (1 / 2)\<rparr>"
  have e: "feq (RLi ?r) (FLi ?r)" by (simp add: feq_def)
  from lawlerlloyd_equal_limbs[OF coincident_rows _ e]
  show ?thesis by (simp add: coincident_rows feq_def)
qed

text \<open>
  The claim as the specification words it fails: for the series whose concentration equals
  its discharge the limbs coincide at the percentile 0.5 with the value 0.5, and \<open>HIL\<close> is 0
  there, not NaN.
\<close>

theorem lawlerlloyd_equal_limbs_counterexample:
  "map (\<lambda>r. (RLi r, FLi r, HIL r)) (the (lawlerlloyd_HI_data coincident_series)) ! 4
     = (Fin (1 / 2), Fin (1 / 2), Fin 0)
   \<and> feq (Fin (1 / 2)) (Fin (1 / 2)) \<and> \<not> isnan (Fin 0)"
  by (simp add: coincident_rows feq_def isnan_def)


section \<open>Properties of the change percentiles\<close>

lemma quantile_at_position: "quantile q xs = at_position (sort xs) (real (length xs - 1) * q)"
  by (simp add: quantile_def at_position_def Let_def)

lemma position_facts:
  fixes h :: real
  assumes "0 \<le> h" "h \<le> real (length s - 1)" "s \<noteq> []"
  shows "nat \<lfloor>h\<rfloor> \<le> length s - 1" "real (nat \<lfloor>h\<rfloor>) \<le> h" "h < real (nat \<lfloor>h\<rfloor>) + 1"
proof -
  from assms(1) have f: "real (nat \<lfloor>h\<rfloor>) = of_int \<lfloor>h\<rfloor>" by simp
  show "real (nat \<lfloor>h\<rfloor>) \<le> h" using f by linarith
  show "h < real (nat \<lfloor>h\<rfloor>) + 1" using f by linarith
  have "\<lfloor>h\<rfloor> \<le> int (length s - 1)" using assms(2) by (simp add: floor_le_iff)
  then show "nat \<lfloor>h\<rfloor> \<le> length s - 1" by linarith
qed

lemma at_position_bounds:
  assumes "sorted s" "0 \<le> h" "h \<le> real (length s - 1)" "s \<noteq> []"
  shows "s ! nat \<lfloor>h\<rfloor> \<le> at_position s h"
    and "at_position s h \<le> s ! min (nat \<lfloor>h\<rfloor> + 1) (length s - 1)"
proof -
  let ?lo = "nat \<lfloor>h\<rfloor>" and ?hi = "min (nat \<lfloor>h\<rfloor> + 1) (length s - 1)"
  note p = position_facts[OF assms(2,3,4)]
  have "?hi < length s" using assms(4) by (cases s) simp_all
  moreover have "?lo \<le> ?hi" using p(1) by simp
  ultimately have le: "s ! ?lo \<le> s ! ?hi" using assms(1) by (simp add: sorted_nth_mono)
  have f0: "0 \<le> h - real ?lo" and f1: "h - real ?lo \<le> 1" using p by linarith+
  have "0 \<le> (h - real ?lo) * (s ! ?hi - s ! ?lo)" using f0 le by simp
  then show "s ! ?lo \<le> at_position s h" by (simp add: at_position_def Let_def)
  have "(h - real ?lo) * (s ! ?hi - s ! ?lo) \<le> 1 * (s ! ?hi - s ! ?lo)"
    using f1 le by (intro mult_right_mono) simp_all
  then show "at_position s h \<le> s ! ?hi" by (simp add: at_position_def Let_def)
qed

lemma at_position_mono:
  assumes "sorted s" "0 \<le> h1" "h1 \<le> h2" "h2 \<le> real (length s - 1)" "s \<noteq> []"
  shows "at_position s h1 \<le> at_position s h2"
proof -
  have h1: "h1 \<le> real (length s - 1)" and h2: "0 \<le> h2" using assms by linarith+
  note p1 = position_facts[OF assms(2) h1 assms(5)]
  note p2 = position_facts[OF h2 assms(4,5)]
  have fl: "nat \<lfloor>h1\<rfloor> \<le> nat \<lfloor>h2\<rfloor>" using assms(3) by (simp add: floor_mono nat_mono)
  show ?thesis
  proof (cases "nat \<lfloor>h1\<rfloor> = nat \<lfloor>h2\<rfloor>")
    case True
    let ?lo = "nat \<lfloor>h2\<rfloor>" and ?hi = "min (nat \<lfloor>h2\<rfloor> + 1) (length s - 1)"
    have "?hi < length s" using assms(5) by (cases s) simp_all
    moreover have "?lo \<le> ?hi" using p2(1) by simp
    ultimately have le: "s ! ?lo \<le> s ! ?hi" using assms(1) by (simp add: sorted_nth_mono)
    have "(h1 - real ?lo) * (s ! ?hi - s ! ?lo) \<le> (h2 - real ?lo) * (s ! ?hi - s ! ?lo)"
      using assms(3) le by (intro mult_right_mono) simp_all
    then show ?thesis by (simp add: at_position_def Let_def True)
  next
    case False
    with fl have lt: "nat \<lfloor>h1\<rfloor> + 1 \<le> nat \<lfloor>h2\<rfloor>" by simp
    then have m: "min (nat \<lfloor>h1\<rfloor> + 1) (length s - 1) = nat \<lfloor>h1\<rfloor> + 1" using p2(1) by simp
    have "nat \<lfloor>h2\<rfloor> < length s" using p2(1) assms(5) by (cases s) simp_all
    then have "s ! (nat \<lfloor>h1\<rfloor> + 1) \<le> s ! nat \<lfloor>h2\<rfloor>"
      using assms(1) lt by (simp add: sorted_nth_mono)
    moreover have "at_position s h1 \<le> s ! (nat \<lfloor>h1\<rfloor> + 1)"
      using at_position_bounds(2)[OF assms(1,2) h1 assms(5)] m by simp
    moreover have "s ! nat \<lfloor>h2\<rfloor> \<le> at_position s h2"
      by (rule at_position_bounds(1)[OF assms(1) h2 assms(4,5)])
    ultimately show ?thesis by linarith
  qed
qed

text \<open>The quantile grows with the level.\<close>

lemma quantile_mono:
  assumes "xs \<noteq> []" "0 \<le> q1" "q1 \<le> q2" "q2 \<le> 1"
  shows "quantile q1 xs \<le> quantile q2 xs"
proof -
  let ?n = "real (length (sort xs) - 1)"
  have n: "0 \<le> ?n" by simp
  have a: "0 \<le> ?n * q1" using assms(2) by simp
  have b: "?n * q1 \<le> ?n * q2" using assms(3) n by (rule mult_left_mono)
  have c: "?n * q2 \<le> ?n" using assms(4) n by (simp add: mult_left_le)
  have e: "sort xs \<noteq> []" using assms(1) by (metis length_sort length_0_conv)
  from at_position_mono[OF _ a b c e] show ?thesis
    by (simp add: quantile_at_position)
qed

text \<open>The quantile at one half is the median.\<close>

lemma quantile_half_median:
  assumes "xs \<noteq> []"
  shows "quantile (1 / 2) xs = median xs"
proof (cases "odd (length xs)")
  case True
  then obtain k where k: "length xs = 2 * k + 1" by (auto elim: oddE)
  have "real (length xs - 1) * (1 / 2) = real k" by (simp add: k)
  then show ?thesis
    using True by (simp add: quantile_def median_def Let_def k)
next
  case False
  then obtain k where k: "length xs = 2 * k" by (auto elim: evenE)
  with assms have k0: "0 < k" by (cases k) simp_all
  have h: "real (length xs - 1) * (1 / 2) = real (k - 1) + 1 / 2"
    using k0 by (simp add: k of_nat_diff field_simps)
  have fl: "\<lfloor>real (k - 1) + 1 / 2\<rfloor> = int (k - 1)"
    by (rule floor_unique) simp_all
  have lo: "nat \<lfloor>real (length xs - 1) * (1 / 2)\<rfloor> = k - 1"
    unfolding h fl by simp
  have hi: "min (k - 1 + 1) (length xs - 1) = k"
    using k k0 by simp
  have frac: "real (length xs - 1) * (1 / 2) - real (k - 1) = 1 / 2"
    unfolding h by simp
  have "quantile (1 / 2) xs
      = sort xs ! (k - 1) + (1 / 2) * (sort xs ! k - sort xs ! (k - 1))"
    by (simp only: quantile_def Let_def length_sort lo hi frac)
  also have "\<dots> = (sort xs ! (k - 1) + sort xs ! k) / 2"
    by (simp add: field_simps)
  also have "\<dots> = median xs"
    using False by (simp add: median_def Let_def k)
  finally show ?thesis .
qed

lemma percentile_lookups:
  assumes "compute_change_percentiles data sites = Some p"
  shows "p ''dC_p08'' = Some (Fin (quantile 0.08 (map fst (pooled_changes data sites))))"
    "p ''dC_p25'' = Some (Fin (quantile 0.25 (map fst (pooled_changes data sites))))"
    "p ''dC_p50'' = Some (Fin (quantile 0.50 (map fst (pooled_changes data sites))))"
    "p ''dC_p75'' = Some (Fin (quantile 0.75 (map fst (pooled_changes data sites))))"
    "p ''dC_p90'' = Some (Fin (quantile 0.90 (map fst (pooled_changes data sites))))"
  using assms
  by (auto simp: compute_change_percentiles_def Let_def split: if_splits)

text \<open>The mapping that is returned holds every key that the phase classifier reads.\<close>

lemma change_percentiles_threshold_keys:
  assumes "compute_change_percentiles data sites = Some p"
  shows "threshold_keys \<subseteq> dom p"
  using assms
  by (auto simp: compute_change_percentiles_def threshold_keys_def Let_def split: if_splits)

text \<open>On data without missing values the pooled changes are those of the specification.\<close>

lemma series_diff_complete:
  "List.map_filter id (series_diff (map Some xs)) = successive_differences xs"
proof (cases xs)
  case Nil
  then show ?thesis by (simp add: series_diff_def successive_differences_def map_filter_simps)
next
  case (Cons x rest)
  have "map2 (\<lambda>a b. case (a, b) of (Some u, Some v) \<Rightarrow> Some (v - u) | _ \<Rightarrow> None)
          (map Some xs) (map Some rest)
      = map Some (successive_differences xs)" (is "?l = ?r")
  proof (rule nth_equalityI)
    show "length ?l = length ?r" by (simp add: Cons successive_differences_def)
    fix i
    assume "i < length ?l"
    then have i: "i < length rest" by simp
    then have "map Some xs ! i = Some (xs ! i)" "map Some rest ! i = Some (xs ! Suc i)"
      by (simp_all add: Cons del: list.map)
    with i show "?l ! i = ?r ! i"
      by (simp add: successive_differences_def Cons del: list.map)
  qed
  then show ?thesis
    by (simp add: series_diff_def Cons map_filter_simps map_filter_def comp_def)
qed

lemma complete_column:
  assumes "\<forall>r \<in> set rs. f r \<noteq> None"
  shows "map f rs = map Some (List.map_filter f rs)"
  using assms by (induction rs) (auto simp: map_filter_simps)

lemma length_map_filter_complete:
  assumes "\<forall>r \<in> set rs. f r \<noteq> None"
  shows "length (List.map_filter f rs) = length rs"
  using complete_column[OF assms] by (metis length_map)

lemma site_changes_complete:
  assumes "\<forall>r \<in> set data. conc r \<noteq> None \<and> flow r \<noteq> None"
  shows "map fst (site_changes data site)
     = successive_differences
         (List.map_filter conc (sort_key date (filter (\<lambda>r. site_id r = site) data)))"
proof -
  let ?sd = "sort_key date (filter (\<lambda>r. site_id r = site) data)"
  have c: "\<forall>r \<in> set ?sd. conc r \<noteq> None" and f: "\<forall>r \<in> set ?sd. flow r \<noteq> None"
    using assms by auto
  have cd: "List.map_filter id (series_diff (map conc ?sd))
      = successive_differences (List.map_filter conc ?sd)"
    by (subst complete_column[OF c]) (rule series_diff_complete)
  have fd: "List.map_filter id (series_diff (map flow ?sd))
      = successive_differences (List.map_filter flow ?sd)"
    by (subst complete_column[OF f]) (rule series_diff_complete)
  have len: "length (successive_differences (List.map_filter conc ?sd))
      = length (successive_differences (List.map_filter flow ?sd))"
    by (simp add: successive_differences_def length_map_filter_complete[OF c]
        length_map_filter_complete[OF f])
  show ?thesis
  proof (cases "length ?sd > 1")
    case True
    then show ?thesis
      unfolding site_changes_def Let_def cd fd using len by simp
  next
    case False
    then have "length (List.map_filter conc ?sd) \<le> 1"
      by (simp add: length_map_filter_complete[OF c])
    then have "successive_differences (List.map_filter conc ?sd) = []"
      by (simp add: successive_differences_def)
    with False show ?thesis
      unfolding site_changes_def Let_def by simp
  qed
qed

lemma pooled_changes_complete:
  assumes "\<forall>r \<in> set data. conc r \<noteq> None \<and> flow r \<noteq> None"
  shows "map fst (pooled_changes data sites) = pooled_dC_spec data sites"
  by (simp add: pooled_changes_def pooled_dC_spec_def map_concat comp_def
      site_changes_complete[OF assms])

text \<open>
  What holds of the list that the function pools: when it is not empty, a mapping is returned
  in which \<open>dC_p50\<close> is the median of the pooled first components and the five percentiles
  are in order; on data without missing values the pooled first components are the
  differences of consecutive concentrations per site.
\<close>

lemma percentiles_of_pooled_changes:
  assumes "pooled_changes data sites \<noteq> []"
  shows "\<exists>p a b c d e. compute_change_percentiles data sites = Some p
     \<and> p ''dC_p08'' = Some (Fin a) \<and> p ''dC_p25'' = Some (Fin b) \<and> p ''dC_p50'' = Some (Fin c)
     \<and> p ''dC_p75'' = Some (Fin d) \<and> p ''dC_p90'' = Some (Fin e)
     \<and> c = median (map fst (pooled_changes data sites))
     \<and> a \<le> b \<and> b \<le> c \<and> c \<le> d \<and> d \<le> e
     \<and> ((\<forall>r \<in> set data. conc r \<noteq> None \<and> flow r \<noteq> None) \<longrightarrow>
          map fst (pooled_changes data sites) = pooled_dC_spec data sites)"
proof -
  let ?dC = "map fst (pooled_changes data sites)"
  from assms obtain p where p: "compute_change_percentiles data sites = Some p"
    by (simp add: compute_change_percentiles_def Let_def)
  have ne: "?dC \<noteq> []" using assms by simp
  have m: "quantile 0.50 ?dC = median ?dC"
    using quantile_half_median[OF ne] by simp
  have "quantile 0.08 ?dC \<le> quantile 0.25 ?dC" by (rule quantile_mono[OF ne]) simp_all
  moreover have "quantile 0.25 ?dC \<le> quantile 0.50 ?dC" by (rule quantile_mono[OF ne]) simp_all
  moreover have "quantile 0.50 ?dC \<le> quantile 0.75 ?dC" by (rule quantile_mono[OF ne]) simp_all
  moreover have "quantile 0.75 ?dC \<le> quantile 0.90 ?dC" by (rule quantile_mono[OF ne]) simp_all
  ultimately show ?thesis
    using p percentile_lookups[OF p] m pooled_changes_complete[of data sites] by blast
qed

lemma demo_pooled: "pooled_changes demo_data [''A'', ''B''] = [(3, 2), (- 2, - 1), (5, 4)]"
  by code_simp

lemma demo_median: "median [3, - 2, 5] = 3"
  by (simp add: median_def)

lemma demo_change_percentiles:
  "\<exists>p. compute_change_percentiles demo_data [''A'', ''B''] = Some p \<and> p ''dC_p50'' = Some (Fin 3)"
  using percentiles_of_pooled_changes[of demo_data "[''A'', ''B'']"] demo_pooled demo_median
  by auto

lemma gappy_pooled: "pooled_changes gappy_data [''A''] = [(1, 3)]"
  by code_simp

lemma gappy_differences: "pooled_dC_spec gappy_data [''A''] = [1, 2, 3]"
  by code_simp

lemma gappy_median: "median [1, 2, 3] = 2"
  by (simp add: median_def)

lemma gappy_percentile:
  "map_option (\<lambda>p. p ''dC_p50'') (compute_change_percentiles gappy_data [''A'']) = Some (Some (Fin 1))"
proof -
  have "pooled_changes gappy_data [''A''] \<noteq> []" by (simp add: gappy_pooled)
  from percentiles_of_pooled_changes[OF this] show ?thesis
    by (auto simp: gappy_pooled median_def)
qed

lemma flowless_pooled: "pooled_changes flowless_data [''A''] = []"
  by code_simp

lemma flowless_differences: "pooled_dC_spec flowless_data [''A''] = [1, 2, 3]"
  by code_simp

lemma flowless_nothing: "compute_change_percentiles flowless_data [''A''] = None"
  by (simp add: compute_change_percentiles_def Let_def flowless_pooled)

text \<open>
  Claim C7.  The pooled concentration changes are not the differences of consecutive
  concentrations when a value is missing: lines 484 to 489 of \<open>gcs_core.py\<close> drop the
  missing differences of the two columns independently and \<open>zip\<close> cuts the longer column.
  For one site with the concentrations 1, 2, 4, 7 and the flows 10, missing, 12, 15 the
  function pools the single pair \<open>(1, 3)\<close> and returns \<open>dC_p50 = 1\<close>, while the
  differences of the concentrations are 1, 2, 3 with the median 2.  When all four flows are
  missing the differences of the concentrations are the same, and the function raises
  \<open>KeyError\<close> instead of returning a mapping.
\<close>

theorem change_percentiles_missing_values:
  "pooled_changes
      [\<lparr> site_id = ''A'', date = 1, conc = Some 1, flow = Some 10 \<rparr>,
       \<lparr> site_id = ''A'', date = 2, conc = Some 2, flow = None \<rparr>,
       \<lparr> site_id = ''A'', date = 3, conc = Some 4, flow = Some 12 \<rparr>,
       \<lparr> site_id = ''A'', date = 4, conc = Some 7, flow = Some 15 \<rparr>] [''A''] = [(1, 3)]
   \<and> map_option (\<lambda>p. p ''dC_p50'')
        (compute_change_percentiles
          [\<lparr> site_id = ''A'', date = 1, conc = Some 1, flow = Some 10 \<rparr>,
           \<lparr> site_id = ''A'', date = 2, conc = Some 2, flow = None \<rparr>,
           \<lparr> site_id = ''A'', date = 3, conc = Some 4, flow = Some 12 \<rparr>,
           \<lparr> site_id = ''A'', date = 4, conc = Some 7, flow = Some 15 \<rparr>] [''A''])
       = Some (Some (Fin 1))
   \<and> pooled_dC_spec
      [\<lparr> site_id = ''A'', date = 1, conc = Some 1, flow = Some 10 \<rparr>,
       \<lparr> site_id = ''A'', date = 2, conc = Some 2, flow = None \<rparr>,
       \<lparr> site_id = ''A'', date = 3, conc = Some 4, flow = Some 12 \<rparr>,
       \<lparr> site_id = ''A'', date = 4, conc = Some 7, flow = Some 15 \<rparr>] [''A''] = [1, 2, 3]
   \<and> median [1, 2, 3] = 2
   \<and> Fin 1 \<noteq> Fin (2 :: real)
   \<and> pooled_dC_spec
      [\<lparr> site_id = ''A'', date = 1, conc = Some 1, flow = None \<rparr>,
       \<lparr> site_id = ''A'', date = 2, conc = Some 2, flow = None \<rparr>,
       \<lparr> site_id = ''A'', date = 3, conc = Some 4, flow = None \<rparr>,
       \<lparr> site_id = ''A'', date = 4, conc = Some 7, flow = None \<rparr>] [''A''] = [1, 2, 3]
   \<and> compute_change_percentiles
      [\<lparr> site_id = ''A'', date = 1, conc = Some 1, flow = None \<rparr>,
       \<lparr> site_id = ''A'', date = 2, conc = Some 2, flow = None \<rparr>,
       \<lparr> site_id = ''A'', date = 3, conc = Some 4, flow = None \<rparr>,
       \<lparr> site_id = ''A'', date = 4, conc = Some 7, flow = None \<rparr>] [''A''] = None"
  using gappy_pooled gappy_percentile gappy_differences gappy_median flowless_differences
    flowless_nothing
  by (simp add: gappy_data_def flowless_data_def)


section \<open>Properties of the combined metrics\<close>

lemma failing_try_body:
  "try_body failing_engines [1, 2, 3]
     = Inl (Exn ''index 0 is out of bounds for axis 0 with size 0'')"
  by (simp add: try_body_def failing_engines_def bind_exn_def)

text \<open>
  Claim C8.  \<open>calculate_all_hysteresis_metrics\<close> returns a result for every frame and
  whatever the engines do: no exception leaves it.  For a frame of fewer than 3 rows the
  five collections of the result are empty and the error marker is set; an exception raised
  in the body of the \<open>try\<close> statement is turned into the error marker with its message.
\<close>

theorem calculate_all_hysteresis_metrics_total:
  "\<exists>r. calculate_all_hysteresis_metrics e df = Inr r
        \<and> (length df < 3 \<longrightarrow>
             harp_metrics r = Map.empty \<and> zuecco_metrics r = Map.empty
             \<and> lloyd_metrics r = Map.empty \<and> classifications r = Map.empty
             \<and> processed_data r = Map.empty
             \<and> error r = Some ''Insufficient data points (need >= 3)'')
        \<and> (\<forall>msg. 3 \<le> length df \<and> try_body e df = Inl (Exn msg) \<longrightarrow>
             r = error_marker (''Calculation failed: '' @ msg))"
proof (cases "length df < 3")
  case True
  then show ?thesis
    by (simp add: calculate_all_hysteresis_metrics_def error_marker_def)
next
  case False
  show ?thesis
  proof (cases "try_body e df")
    case (Inl x)
    then show ?thesis using False
      by (cases x) (simp add: calculate_all_hysteresis_metrics_def)
  next
    case (Inr r)
    then show ?thesis using False
      by (simp add: calculate_all_hysteresis_metrics_def)
  qed
qed

theorem calculate_all_hysteresis_metrics_total_witness:
  "length [1::nat, 2] < 3
   \<and> calculate_all_hysteresis_metrics failing_engines [1, 2]
       = Inr (error_marker ''Insufficient data points (need >= 3)'')
   \<and> 3 \<le> length [1::nat, 2, 3]
   \<and> try_body failing_engines [1, 2, 3]
       = Inl (Exn ''index 0 is out of bounds for axis 0 with size 0'')
   \<and> calculate_all_hysteresis_metrics failing_engines [1, 2, 3]
       = Inr (error_marker ''Calculation failed: index 0 is out of bounds for axis 0 with size 0'')"
proof -
  from calculate_all_hysteresis_metrics_total[of failing_engines "[1, 2]"]
  have a: "calculate_all_hysteresis_metrics failing_engines [1, 2]
       = Inr (error_marker ''Insufficient data points (need >= 3)'')"
    by (auto simp: error_marker_def)
  from calculate_all_hysteresis_metrics_total[of failing_engines "[1, 2, 3]"] failing_try_body
  have b: "calculate_all_hysteresis_metrics failing_engines [1, 2, 3]
       = Inr (error_marker ''Calculation failed: index 0 is out of bounds for axis 0 with size 0'')"
    by auto
  from a b failing_try_body show ?thesis by simp
qed


section \<open>Regular tables\<close>

text \<open>
  The cells of the limb tables are NaN or finite, since the series is finite; the sums over
  such cells that skip NaN are finite.
\<close>


lemma regular_cases: "regular x \<Longrightarrow> (x = NaN \<Longrightarrow> P) \<Longrightarrow> (\<And>r. x = Fin r \<Longrightarrow> P) \<Longrightarrow> P"
  by (cases x) (auto simp: regular_def)

lemma regular_simps [simp]: "regular NaN" "regular (Fin x)" "\<not> regular PInf" "\<not> regular NInf"
  by (simp_all add: regular_def)

lemma regular_fsub: "regular a \<Longrightarrow> regular b \<Longrightarrow> regular (fsub a b)"
  by (cases a; cases b) (simp_all add: fsub_def)

lemma regular_fadd: "regular a \<Longrightarrow> regular b \<Longrightarrow> regular (fadd a b)"
  by (cases a; cases b) simp_all

lemma regular_fmul: "regular a \<Longrightarrow> regular b \<Longrightarrow> regular (fmul a b)"
  by (cases a; cases b) simp_all

lemma regular_fdiv: "regular a \<Longrightarrow> d \<noteq> 0 \<Longrightarrow> regular (fdiv a (Fin d))"
  by (cases a) simp_all

lemma regular_lerp:
  assumes "regular (snd p0)" "regular (snd p1)" "fst p0 \<noteq> fst p1"
  shows "regular (lerp x p0 p1)"
proof -
  have s: "regular (fdiv (fsub (snd p1) (snd p0)) (Fin (fst p1 - fst p0)))"
    using assms by (intro regular_fdiv regular_fsub) simp_all
  show ?thesis
    unfolding lerp_def Let_def
    using assms(1,2) s by (auto intro!: regular_fadd regular_fmul)
qed

lemma regular_np_interp:
  assumes "\<forall>p \<in> set pts. regular (snd p)" "distinct (map fst pts)"
  shows "regular (np_interp x pts)"
  using assms
proof (induction x pts rule: np_interp.induct)
  case (1 x)
  show ?case by simp
next
  case (2 x p)
  then show ?case by simp
next
  case (3 x p0 p1 ps)
  have "regular (lerp x p0 p1)"
    using 3(2,3) by (intro regular_lerp) auto
  moreover have "regular (np_interp x (p1 # ps))" if "\<not> x \<le> fst p0" "\<not> x < fst p1"
    using 3(1)[OF that] 3(2,3) by simp
  ultimately show ?case using 3(2) by simp
qed

lemma regular_interpolate_linear:
  assumes "\<forall>y \<in> set ys. regular y"
  shows "\<forall>y \<in> set (interpolate_linear ys). regular y"
proof -
  let ?valid = "filter (\<lambda>i. \<not> isnan (ys ! i)) [0..<length ys]"
  have d: "distinct (map fst (map (\<lambda>j. (real j, ys ! j)) ?valid))"
    by (simp add: comp_def distinct_map inj_on_def)
  have r: "\<forall>p \<in> set (map (\<lambda>j. (real j, ys ! j)) ?valid). regular (snd p)"
    using assms by auto
  have "regular (np_interp x (map (\<lambda>j. (real j, ys ! j)) ?valid))" for x
    by (rule regular_np_interp[OF r d])
  then show ?thesis
    using assms unfolding interpolate_linear_def Let_def by auto
qed

lemma length_interpolate_linear [simp]: "length (interpolate_linear ys) = length ys"
  by (simp add: interpolate_linear_def Let_def)

lemma regular_table_cols:
  "regular_table t = ((\<forall>y \<in> set (col0 t). regular y) \<and> (\<forall>y \<in> set (col1 t). regular y))"
  by (auto simp: regular_table_def col0_def col1_def)

lemma cols_zip:
  assumes "length xs = length ys" "length ys = length zs"
  shows "map fst (zip xs (zip ys zs)) = xs"
    and "col0 (zip xs (zip ys zs)) = ys"
    and "col1 (zip xs (zip ys zs)) = zs"
  using assms by (induction xs ys zs rule: list_induct3) (simp_all add: col0_def col1_def)

lemma interpolate_cols [simp]:
  "map fst (interpolate t) = map fst t"
  "col0 (interpolate t) = interpolate_linear (col0 t)"
  "col1 (interpolate t) = interpolate_linear (col1 t)"
proof -
  have l: "length (map fst t) = length (interpolate_linear (col0 t))"
    "length (interpolate_linear (col0 t)) = length (interpolate_linear (col1 t))"
    by (simp_all add: col0_def col1_def)
  show "map fst (interpolate t) = map fst t"
    unfolding interpolate_def by (rule cols_zip(1)[OF l])
  show "col0 (interpolate t) = interpolate_linear (col0 t)"
    unfolding interpolate_def by (rule cols_zip(2)[OF l])
  show "col1 (interpolate t) = interpolate_linear (col1 t)"
    unfolding interpolate_def by (rule cols_zip(3)[OF l])
qed

lemma regular_interpolate: "regular_table t \<Longrightarrow> regular_table (interpolate t)"
  unfolding regular_table_cols interpolate_cols
  using regular_interpolate_linear[of "col0 t"] regular_interpolate_linear[of "col1 t"]
  by blast

lemma regular_concat_sorted: "regular_table (concat_sorted a b)"
  by (auto simp: regular_table_def concat_sorted_def cell_def split: option.splits)

lemma regular_limbs_of: "regular_table (limbs_of df)"
  by (simp add: limbs_of_def regular_interpolate regular_concat_sorted)


lemma foldl_fadd_regular:
  assumes "\<forall>x \<in> set xs. regular x"
  shows "foldl fadd (Fin a) (filter (\<lambda>x. \<not> isnan x) xs) = Fin (a + sum_list (map fin xs))"
  using assms
proof (induction xs arbitrary: a)
  case Nil
  show ?case by simp
next
  case (Cons x xs)
  from Cons.prems have "regular x" by simp
  then show ?case
    using Cons.IH Cons.prems by (cases x) (simp_all add: isnan_def add.assoc)
qed

lemma sum_skipna_regular:
  assumes "\<forall>x \<in> set xs. regular x"
  shows "sum_skipna xs = Fin (sum_list (map fin xs))"
  using foldl_fadd_regular[OF assms, of 0] by (simp add: sum_skipna_def)

lemma map2_nth: "map2 f xs ys = map (\<lambda>i. f (xs ! i) (ys ! i)) [0..<min (length xs) (length ys)]"
  by (rule nth_equalityI) simp_all

lemma length_index_diff [simp]: "length (index_diff xs) = length xs"
  by (cases xs) (simp_all add: index_diff_def)

lemma index_diff_nth:
  "i < length xs \<Longrightarrow> index_diff xs ! i = (if i = 0 then NaN else Fin (xs ! i - xs ! (i - 1)))"
  by (cases xs; cases i) (simp_all add: index_diff_def)

lemma length_cols [simp]: "length (col0 t) = length t" "length (col1 t) = length t"
  by (simp_all add: col0_def col1_def)

lemma regular_table_nth:
  "regular_table t \<Longrightarrow> i < length t \<Longrightarrow> regular (col0 t ! i) \<and> regular (col1 t ! i)"
  by (simp add: regular_table_def col0_def col1_def)

lemma limb_area_terms: "limb_area t = sum_skipna (map (area_term t) [0..<length t])"
  unfolding limb_area_def
  by (rule arg_cong[where f = sum_skipna]) (simp add: map2_nth area_term_def)

lemma area_term_regular:
  assumes "regular_table t" "i < length t"
  shows "regular (area_term t i)"
    and "fin (area_term t i) =
      (if 1 \<le> i \<and> isfinite (col0 t ! i) \<and> isfinite (col1 t ! i)
       then (fin (col0 t ! i) - fin (col1 t ! i)) * (fst (t ! i) - fst (t ! (i - 1))) else 0)"
proof -
  from regular_table_nth[OF assms] have r: "regular (col0 t ! i)" "regular (col1 t ! i)" by simp_all
  have d: "index_diff (map fst t) ! i = (if i = 0 then NaN else Fin (fst (t ! i) - fst (t ! (i - 1))))"
    using assms(2) by (simp add: index_diff_nth)
  show "regular (area_term t i)"
    unfolding area_term_def d using r by (intro regular_fmul regular_fsub) simp_all
  show "fin (area_term t i) =
      (if 1 \<le> i \<and> isfinite (col0 t ! i) \<and> isfinite (col1 t ! i)
       then (fin (col0 t ! i) - fin (col1 t ! i)) * (fst (t ! i) - fst (t ! (i - 1))) else 0)"
    using r unfolding area_term_def d
    by (cases "col0 t ! i"; cases "col1 t ! i") (simp_all add: fsub_def)
qed

lemma limb_area_regular:
  assumes "regular_table t"
  shows "limb_area t = Fin (rectangle_sum t)"
proof -
  let ?g = "\<lambda>i. if 1 \<le> i \<and> isfinite (col0 t ! i) \<and> isfinite (col1 t ! i)
       then (fin (col0 t ! i) - fin (col1 t ! i)) * (fst (t ! i) - fst (t ! (i - 1))) else 0"
  have reg: "\<forall>x \<in> set (map (area_term t) [0..<length t]). regular x"
    using area_term_regular(1)[OF assms] by auto
  have "sum_list (map fin (map (area_term t) [0..<length t])) = sum_list (map ?g [0..<length t])"
    unfolding map_map comp_def
    by (rule arg_cong[where f = sum_list], rule map_cong[OF refl])
       (simp add: area_term_regular(2)[OF assms])
  also have "\<dots> = sum ?g {0..<length t}"
    by (simp add: interv_sum_list_conv_sum_set_nat)
  also have "\<dots> = rectangle_sum t"
    unfolding rectangle_sum_def
    by (subst sum.inter_filter[symmetric]) (auto intro!: sum.cong)
  finally show ?thesis
    by (simp add: limb_area_terms sum_skipna_regular[OF reg])
qed

lemma limb_area_limbs_of: "limb_area (limbs_of df) = Fin (rectangle_sum (limbs_of df))"
  by (rule limb_area_regular[OF regular_limbs_of])


section \<open>Properties of the HARP area\<close>


lemma sign_magnitude:
  fixes u v :: real
  defines "w \<equiv> (if \<bar>u\<bar> > \<bar>v\<bar> then sgn u else sgn v) * (\<bar>u\<bar> + \<bar>v\<bar>)"
  shows "\<bar>w\<bar> = \<bar>u\<bar> + \<bar>v\<bar>" "\<bar>u\<bar> > \<bar>v\<bar> \<longrightarrow> sgn w = sgn u" "\<bar>u\<bar> \<le> \<bar>v\<bar> \<longrightarrow> sgn w = sgn v"
  unfolding w_def by (auto simp: abs_mult sgn_mult abs_sgn_eq sgn_if)


lemma crossing_intersection:
  "find_intersection (limbs_of (prepare crossing_series)) Simple = Some 0"
  by code_simp

lemma crossing_metrics:
  "calculate_harp_metrics crossing_series Simple =
     Some \<lparr> area = Fin (1 / 4), residual = Fin (1 / 2), area_lower = Fin 0,
            area_upper = Fin (1 / 4) \<rparr>"
  by code_simp

lemma tilted_intersection:
  "find_intersection (limbs_of (prepare tilted_series)) Simple = Some (1 / 4)"
  by code_simp

lemma tilted_metrics:
  "calculate_harp_metrics tilted_series Simple =
     Some \<lparr> area = Fin (- (11 / 40)), residual = Fin (1 / 2), area_lower = Fin (- (1 / 5)),
            area_upper = Fin (3 / 40) \<rparr>"
  by code_simp

lemma tilted_spec:
  "split_area_spec (limbs_of (prepare tilted_series)) (1 / 4)
     = (Fin (- (3 / 16)), Fin (- (13 / 80)), Fin (- (1 / 40)))"
  by code_simp

lemma crossing_spec:
  "split_area_spec (limbs_of (prepare crossing_series)) 0 = (Fin (3 / 8), Fin 0, Fin (3 / 8))"
  by code_simp

lemma crossing_upper_rectangles:
  "limb_area (upper_half (limbs_of (prepare crossing_series)) 0) = Fin (5 / 8)"
  by code_simp

text \<open>
  The row marked as the intersection can be the row of the concentration peak; then line 114
  overwrites its mark and line 148 raises \<open>IndexError\<close>.
\<close>

lemma peak_crossing_raises:
  "find_intersection (limbs_of (prepare peak_crossing_series)) Simple = Some (1 / 2)
   \<and> marked_row (prepare peak_crossing_series) (1 / 2) = 1
   \<and> argmax (map snd peak_crossing_series) = 1
   \<and> calculate_harp_metrics peak_crossing_series Simple = None"
  by code_simp

text \<open>
  Claim C2.  When an intersection of the limbs is found at \<open>x\<close>, the call returns unless the
  row marked as the intersection is the row of the global maximum of the discharge or of the
  concentration.  The returned lower and upper area are the sums of the area expression of
  the code (rising minus falling times the step from the previous key, over the rows after
  the first where both limbs have a value) over the limb table rebuilt from the points with
  \<open>QS \<le> x\<close> and over the one rebuilt from the points with \<open>QS > x\<close>.  The returned area has
  the magnitude \<open>|area1| + |area2|\<close> and the sign of the sub-area of larger magnitude, that
  of the upper one when the magnitudes are equal.
\<close>

theorem harp_area_with_intersection:
  assumes "s \<noteq> []" and "find_intersection (limbs_of (prepare s)) m = Some x"
  shows "\<exists>a a1 a2.
           a1 = rectangle_sum (limbs_of (filter (\<lambda>p. QS p \<le> x) (prepare s)))
         \<and> a2 = rectangle_sum (limbs_of (filter (\<lambda>p. QS p > x) (prepare s)))
         \<and> \<bar>a\<bar> = \<bar>a1\<bar> + \<bar>a2\<bar>
         \<and> (\<bar>a1\<bar> > \<bar>a2\<bar> \<longrightarrow> sgn a = sgn a1)
         \<and> (\<bar>a1\<bar> \<le> \<bar>a2\<bar> \<longrightarrow> sgn a = sgn a2)
         \<and> calculate_harp_metrics s m =
             (if marked_row (prepare s) x = argmax (map fst s)
                 \<or> marked_row (prepare s) x = argmax (map snd s) then None
              else Some \<lparr> area = Fin a,
                          residual = Fin (CS (last (prepare s)) - CS (hd (prepare s))),
                          area_lower = Fin a1, area_upper = Fin a2 \<rparr>)"
proof -
  define a1 where "a1 = rectangle_sum (limbs_of (filter (\<lambda>p. QS p \<le> x) (prepare s)))"
  define a2 where "a2 = rectangle_sum (limbs_of (filter (\<lambda>p. QS p > x) (prepare s)))"
  define a where "a = (if \<bar>a1\<bar> > \<bar>a2\<bar> then sgn a1 else sgn a2) * (\<bar>a1\<bar> + \<bar>a2\<bar>)"
  have sm: "\<bar>a\<bar> = \<bar>a1\<bar> + \<bar>a2\<bar>" "\<bar>a1\<bar> > \<bar>a2\<bar> \<longrightarrow> sgn a = sgn a1"
    "\<bar>a1\<bar> \<le> \<bar>a2\<bar> \<longrightarrow> sgn a = sgn a2"
    unfolding a_def by (rule sign_magnitude[where u = a1 and v = a2])+
  have "split_areas (prepare s) x = (Fin a, Fin a1, Fin a2)"
    by (simp add: split_areas_def Let_def limb_area_limbs_of fgt_def a_def a1_def a2_def)
  then have eq: "calculate_harp_metrics s m =
      (if marked_row (prepare s) x = argmax (map fst s)
          \<or> marked_row (prepare s) x = argmax (map snd s) then None
       else Some \<lparr> area = Fin a,
                   residual = Fin (CS (last (prepare s)) - CS (hd (prepare s))),
                   area_lower = Fin a1, area_upper = Fin a2 \<rparr>)"
    using assms by (simp add: calculate_harp_metrics_def Let_def)
  from sm eq show ?thesis
    unfolding a1_def a2_def by blast
qed

theorem harp_area_with_intersection_witness:
  "tilted_series \<noteq> []
   \<and> find_intersection (limbs_of (prepare tilted_series)) Simple = Some (1 / 4)
   \<and> calculate_harp_metrics tilted_series Simple =
       Some \<lparr> area = Fin (- (11 / 40)), residual = Fin (1 / 2), area_lower = Fin (- (1 / 5)),
              area_upper = Fin (3 / 40) \<rparr>
   \<and> rectangle_sum (limbs_of (filter (\<lambda>p. QS p \<le> 1 / 4) (prepare tilted_series))) = - (1 / 5)
   \<and> rectangle_sum (limbs_of (filter (\<lambda>p. QS p > 1 / 4) (prepare tilted_series))) = 3 / 40
   \<and> \<bar>- (11 / 40) :: real\<bar> = \<bar>- (1 / 5)\<bar> + \<bar>3 / 40\<bar>
   \<and> \<bar>- (1 / 5) :: real\<bar> > \<bar>3 / 40\<bar>
   \<and> sgn (- (11 / 40) :: real) = sgn (- (1 / 5))"
proof -
  have ne: "tilted_series \<noteq> []" by (simp add: tilted_series_def)
  from harp_area_with_intersection[OF ne tilted_intersection]
  have "rectangle_sum (limbs_of (filter (\<lambda>p. QS p \<le> 1 / 4) (prepare tilted_series))) = - (1 / 5)
      \<and> rectangle_sum (limbs_of (filter (\<lambda>p. QS p > 1 / 4) (prepare tilted_series))) = 3 / 40"
    by (auto simp: tilted_metrics split: if_splits)
  then show ?thesis
    using ne tilted_intersection by (simp add: tilted_metrics)
qed

text \<open>
  The sub-areas of the code are not the integrals over the two halves of the domain.  For the
  series \<open>crossing_series\<close> the intersection is at 0 and the code reports the area 1/4,
  while the trapezoidal rule over the keys from 0 on gives 3/8 and the area expression of the
  code itself over those keys gives 5/8: the limb table rebuilt from the points with
  \<open>QS > 0\<close> starts at the key 1/2, so the strip from 0 to 1/2 is in neither sub-area.  For
  the series \<open>tilted_series\<close> the intersection is at 1/4 and the code reports \<open>- 11/40\<close>,
  while the integrals over the two halves give \<open>- 3/16\<close>.
\<close>

theorem harp_area_with_intersection_counterexample:
  "find_intersection
      (limbs_of (prepare [(0, 0), (1 / 2, 1), (1, 1 / 2), (1 / 2, 1 / 4), (0, 1 / 2)])) Simple
     = Some 0
   \<and> calculate_harp_metrics [(0, 0), (1 / 2, 1), (1, 1 / 2), (1 / 2, 1 / 4), (0, 1 / 2)] Simple
     = Some \<lparr> area = Fin (1 / 4), residual = Fin (1 / 2), area_lower = Fin 0,
              area_upper = Fin (1 / 4) \<rparr>
   \<and> split_area_spec
        (limbs_of (prepare [(0, 0), (1 / 2, 1), (1, 1 / 2), (1 / 2, 1 / 4), (0, 1 / 2)])) 0
     = (Fin (3 / 8), Fin 0, Fin (3 / 8))
   \<and> limb_area
        (upper_half
          (limbs_of (prepare [(0, 0), (1 / 2, 1), (1, 1 / 2), (1 / 2, 1 / 4), (0, 1 / 2)])) 0)
     = Fin (5 / 8)
   \<and> Fin (1 / 4) \<noteq> Fin (3 / 8) \<and> Fin (1 / 4) \<noteq> Fin (5 / 8)
   \<and> find_intersection
        (limbs_of (prepare [(0, 0), (1 / 4, 1 / 10), (1 / 2, 3 / 5), (3 / 4, 1), (1, 4 / 5),
                            (3 / 4, 9 / 10), (1 / 2, 1 / 2), (1 / 4, 9 / 10), (0, 1 / 2)]))
        Simple
     = Some (1 / 4)
   \<and> map_option area
        (calculate_harp_metrics
          [(0, 0), (1 / 4, 1 / 10), (1 / 2, 3 / 5), (3 / 4, 1), (1, 4 / 5),
           (3 / 4, 9 / 10), (1 / 2, 1 / 2), (1 / 4, 9 / 10), (0, 1 / 2)] Simple)
     = Some (Fin (- (11 / 40)))
   \<and> split_area_spec
        (limbs_of (prepare [(0, 0), (1 / 4, 1 / 10), (1 / 2, 3 / 5), (3 / 4, 1), (1, 4 / 5),
                            (3 / 4, 9 / 10), (1 / 2, 1 / 2), (1 / 4, 9 / 10), (0, 1 / 2)]))
        (1 / 4)
     = (Fin (- (3 / 16)), Fin (- (13 / 80)), Fin (- (1 / 40)))
   \<and> Fin (- (11 / 40)) \<noteq> Fin (- (3 / 16))"
  using crossing_intersection crossing_metrics crossing_spec crossing_upper_rectangles
    tilted_intersection tilted_metrics tilted_spec
  by (simp add: crossing_series_def tilted_series_def)

lemma regular_np_sign: "regular x \<Longrightarrow> regular (np_sign x)"
  by (cases x) simp_all
lemma np_where_zero:
  assumes "\<forall>x \<in> set xs. x = Fin 0"
  shows "np_where xs = []"
proof -
  have "feq (xs ! i) (Fin 0)" if "i < length xs" for i
  proof -
    from assms nth_mem[OF that] have "xs ! i = Fin 0" by blast
    then show ?thesis by (simp add: feq_def)
  qed
  then show ?thesis
    by (simp add: np_where_def filter_empty_conv)
qed

lemma regular_dropna: "regular_table t \<Longrightarrow> regular_table (dropna t)"
  by (simp add: regular_table_def dropna_def)

lemma no_sign_change_no_intersection:
  assumes "regular_table t" "no_sign_change t"
  shows "find_intersection t Simple = None"
proof -
  let ?c = "dropna t"
  let ?d = "map2 fsub (col0 ?c) (col1 ?c)"
  have len: "length ?d = length ?c" by simp
  have reg: "regular (?d ! i)" if "i < length ?c" for i
    using regular_table_nth[OF regular_dropna[OF assms(1)] that] that
    by (simp add: regular_fsub)
  have same: "np_sign (?d ! Suc i) = np_sign (?d ! i)" if "Suc i < length ?c" for i
    using assms(2) that unfolding no_sign_change_def Let_def list_all_iff by simp
  have "np_diff (map np_sign ?d) ! i = Fin 0" if "i < length ?c - 1" for i
  proof -
    from that have i: "i < length ?d" "Suc i < length ?d" by simp_all
    have "regular (np_sign (?d ! i))" using reg[of i] i by (simp add: regular_np_sign)
    moreover have "np_sign (?d ! i) \<noteq> NaN"
    proof -
      have "\<not> isnan (col0 ?c ! i)" "\<not> isnan (col1 ?c ! i)"
        using i nth_mem[of i ?c] by (auto simp: dropna_def col0_def col1_def)
      moreover from regular_table_nth[OF regular_dropna[OF assms(1)], of i] i
      have "regular (col0 ?c ! i)" "regular (col1 ?c ! i)" by simp_all
      ultimately show ?thesis
        using i by (cases "col0 ?c ! i"; cases "col1 ?c ! i") (simp_all add: isnan_def fsub_def)
    qed
    ultimately obtain r where "np_sign (?d ! i) = Fin r"
      by (cases "np_sign (?d ! i)") simp_all
    then show ?thesis
      using i same[of i] unfolding np_diff_def by (simp add: fsub_def)
  qed
  then have "\<forall>x \<in> set (np_diff (map np_sign ?d)). x = Fin 0"
    by (auto simp: in_set_conv_nth np_diff_def)
  then have "np_where (np_diff (map np_sign ?d)) = []" by (rule np_where_zero)
  then show ?thesis
    by (simp add: find_intersection_def Let_def)
qed

lemma declining_no_sign_change: "no_sign_change (limbs_of (prepare declining_series))"
  by code_simp

lemma declining_metrics:
  "calculate_harp_metrics declining_series Simple =
     Some \<lparr> area = Fin (- (7 / 10)), residual = Fin (3 / 5), area_lower = NaN,
            area_upper = NaN \<rparr>"
  by code_simp

lemma declining_no_intersection:
  "find_intersection (limbs_of (prepare declining_series)) Simple = None"
  by code_simp

lemma declining_trapezoid:
  "trapezoid_spec (limbs_of (prepare declining_series)) = Fin (- (13 / 20))"
  by code_simp

text \<open>
  Claim C3, as the code has it.  When no intersection of the limbs is found, the call
  returns, the reported area is the raw signed sum, over the rows of the shared table after
  the first where both limbs have a value, of rising minus falling times the step from the
  previous key (a rectangle rule on the right end points, not the trapezoidal rule), and
  the lower and the upper area are NaN.  With the method \<open>simple\<close> no intersection is
  found when the sign of rising minus falling does not change.
\<close>

theorem harp_area_without_intersection:
  assumes "s \<noteq> []"
  shows "(find_intersection (limbs_of (prepare s)) m = None \<longrightarrow>
            (\<exists>r. calculate_harp_metrics s m = Some r
               \<and> area r = Fin (rectangle_sum (limbs_of (prepare s)))
               \<and> area_lower r = NaN \<and> area_upper r = NaN))
       \<and> (no_sign_change (limbs_of (prepare s)) \<longrightarrow>
            find_intersection (limbs_of (prepare s)) Simple = None)"
  using assms no_sign_change_no_intersection[OF regular_limbs_of, of "prepare s"]
  by (simp add: calculate_harp_metrics_def Let_def limb_area_limbs_of)

theorem harp_area_without_intersection_witness:
  "declining_series \<noteq> []
   \<and> no_sign_change (limbs_of (prepare declining_series))
   \<and> find_intersection (limbs_of (prepare declining_series)) Simple = None
   \<and> calculate_harp_metrics declining_series Simple =
       Some \<lparr> area = Fin (- (7 / 10)), residual = Fin (3 / 5), area_lower = NaN,
              area_upper = NaN \<rparr>
   \<and> rectangle_sum (limbs_of (prepare declining_series)) = - (7 / 10)"
proof -
  have ne: "declining_series \<noteq> []" by (simp add: declining_series_def)
  from harp_area_without_intersection[OF ne, of Simple] declining_no_sign_change
  show ?thesis
    using ne by (simp add: declining_metrics)
qed

text \<open>
  The claim as the specification words it fails: for the series with discharge
  \<open>0, 0.5, 1, 0.5, 0\<close> and concentration \<open>0, 0.2, 1, 0.8, 0.6\<close> the limbs do not cross, the
  trapezoidal rule gives \<open>-0.65\<close>, and the reported area is \<open>-0.7\<close>.
\<close>

theorem harp_area_without_intersection_counterexample:
  "find_intersection (limbs_of (prepare [(0, 0), (1 / 2, 1 / 5), (1, 1), (1 / 2, 4 / 5), (0, 3 / 5)]))
     Simple = None
   \<and> map_option area
        (calculate_harp_metrics [(0, 0), (1 / 2, 1 / 5), (1, 1), (1 / 2, 4 / 5), (0, 3 / 5)] Simple)
       = Some (Fin (- (7 / 10)))
   \<and> trapezoid_spec (limbs_of (prepare [(0, 0), (1 / 2, 1 / 5), (1, 1), (1 / 2, 4 / 5), (0, 3 / 5)]))
       = Fin (- (13 / 20))
   \<and> Fin (- (7 / 10)) \<noteq> Fin (- (13 / 20))"
  using declining_metrics declining_trapezoid declining_no_intersection
  by (simp add: declining_series_def)


section \<open>Properties of the Zuecco index\<close>


lemma length_x_fixed [simp]: "length x_fixed = 18"
  by (simp add: x_fixed_def)





lemma length_interpolate [simp]: "length (interpolate t) = length t"
  by (simp add: interpolate_def col0_def col1_def)

lemma length_reindex_nearest [simp]: "length (reindex_nearest t xs) = length xs"
  by (simp add: reindex_nearest_def)



lemma length_limbs_fixed_of [simp]: "length (limbs_fixed_of t) = 18"
  by (simp add: limbs_fixed_of_def Let_def)











end
